theory Spec2Isabelle
  imports Complex_Main "HOL-Library.Multiset"
begin

section \<open>Data model (shared/schema.ts)\<close>

text \<open>
  The tables \<open>reports\<close> and \<open>unsafe_zones\<close> of the schema. Identifiers are the
  \<open>varchar\<close> primary keys filled by \<open>gen_random_uuid()\<close>; they are modelled as natural
  numbers and a generated identifier is one that the table does not hold yet.
  Coordinates are the \<open>decimal(10,8)\<close> / \<open>decimal(11,8)\<close> columns, which the driver
  hands over as strings: a coordinate is the real number its decimal string denotes.
  SQL reads that number exactly (\<open>CAST(s AS DECIMAL)\<close>), JavaScript reads it as the
  nearest double (\<open>Number(s)\<close>, see \<open>to_double\<close> below).
  A nullable column is an \<open>option\<close>, \<open>None\<close> being SQL \<open>NULL\<close>. The text columns
  \<open>status\<close> and \<open>risk_level\<close> stay strings, as in the schema; the integer columns
  hold 32-bit integers (see \<open>int4\<close> below).
\<close>

type_synonym ident = nat
type_synonym timestamp = nat

record Report =
  rep_id :: ident
  rep_userId :: "ident option"
  rep_location :: string
  rep_latitude :: "real option"
  rep_longitude :: "real option"
  rep_incidentType :: string
  rep_description :: "string option"
  rep_datetime :: timestamp
  rep_anonymous :: "bool option"
  rep_status :: "string option"
  rep_createdAt :: timestamp

record UnsafeZone =
  zid :: ident
  name :: string
  latitude :: real
  longitude :: real
  radius :: "int option"
  reportCount :: "int option"
  riskLevel :: "string option"
  createdAt :: timestamp
  updatedAt :: timestamp

text \<open>
  A value handed over by JavaScript code where the TypeScript type promises a value:
  types are erased at run time, so the field can be missing (\<open>undefined\<close>), \<open>null\<close>,
  or hold a value.
\<close>

datatype 'a js = Undefined | Null | Given 'a

text \<open>The argument of \<open>createUnsafeZone\<close> (type \<open>InsertUnsafeZone\<close>).\<close>

record InsertUnsafeZone =
  ins_name :: string
  ins_latitude :: "real js"
  ins_longitude :: "real js"
  ins_radius :: "int js"
  ins_reportCount :: "int js"
  ins_riskLevel :: "string js"

text \<open>
  The argument of \<open>createOrUpdateZone\<close>:
  \<open>{ name: string; latitude: string; longitude: string; radius?: number }\<close>.
\<close>

record ZoneData =
  data_name :: string
  data_latitude :: "real js"
  data_longitude :: "real js"
  data_radius :: "int option"

text \<open>
  The database: the two tables, each in its listing order. An update leaves a row at
  its place in the listing and an insert lists the new row last.
\<close>

record Db =
  reports :: "Report list"
  unsafeZones :: "UnsafeZone list"

text \<open>
  What an operation can fail with: \<open>NotFound\<close> is the 404 answer of a route,
  \<open>InvalidInput\<close> a rejected request (the 400 answers, and a failed schema parse, which
  the zone route reports with status 500 like every exception),
  \<open>StoreFailure\<close> an exception thrown by the database driver.
\<close>

datatype error = InvalidInput | NotFound | StoreFailure

section \<open>JavaScript numbers\<close>

text \<open>
  A JavaScript number is an IEEE 754 double. The finite doubles are modelled as the
  real numbers they stand for; \<open>to_double x\<close> is the double nearest to \<open>x\<close>, ties going
  to the even significand, and \<open>None\<close> when that is an infinity. \<open>binade x\<close> is the
  exponent \<open>e\<close> with \<open>2^e \<le> |x| < 2^(e+1)\<close>, not below the exponent -1022 of the
  subnormal numbers; a double is a multiple of \<open>2^(e-52)\<close>.
\<close>

definition round_half_even :: "real \<Rightarrow> int" where
  "round_half_even q =
     (let f = \<lfloor>q\<rfloor>; r = q - of_int f
      in if r < 1 / 2 then f else if 1 / 2 < r then f + 1 else if even f then f else f + 1)"

fun log2_up :: "nat \<Rightarrow> real \<Rightarrow> int" where
  "log2_up 0 x = 0"
| "log2_up (Suc n) x = (if 2 \<le> x then 1 + log2_up n (x / 2) else 0)"

fun log2_down :: "nat \<Rightarrow> real \<Rightarrow> int" where
  "log2_down 0 x = 0"
| "log2_down (Suc n) x = (if x < 1 then log2_down n (2 * x) - 1 else 0)"

definition binade :: "real \<Rightarrow> int" where
  "binade x = (if 1 \<le> \<bar>x\<bar> then log2_up 1100 \<bar>x\<bar> else log2_down 1022 \<bar>x\<bar>)"

definition pow2 :: "int \<Rightarrow> real" where
  "pow2 k = (if 0 \<le> k then 2 ^ nat k else 1 / 2 ^ nat (- k))"

definition to_double :: "real \<Rightarrow> real option" where
  "to_double x =
     (if x = 0 then Some 0
      else let u = pow2 (binade x - 52);
               y = of_int (round_half_even (x / u)) * u
           in if pow2 1024 \<le> \<bar>y\<bar> then None else Some y)"

text \<open>
  \<open>Number(v)\<close>: \<open>undefined\<close> gives \<open>NaN\<close>, \<open>null\<close> gives 0, a decimal string its
  nearest double. \<open>None\<close> stands for \<open>NaN\<close> and the infinities, which behave alike in
  what follows: the absolute value of a difference with one of them is never below a
  finite bound.
\<close>

fun Number :: "real js \<Rightarrow> real option" where
  "Number Undefined = None"
| "Number Null = Some 0"
| "Number (Given x) = to_double x"

text \<open>\<open>x - y\<close> on JavaScript numbers: the exact difference, rounded.\<close>

definition js_minus :: "real option \<Rightarrow> real option \<Rightarrow> real option" where
  "js_minus x y = (case (x, y) of (Some a, Some b) \<Rightarrow> to_double (a - b) | _ \<Rightarrow> None)"

text \<open>
  \<open>Math.abs(Number(a) - Number(b))\<close> for the string \<open>a\<close> of a \<open>NOT NULL\<close> decimal
  column and a value \<open>b\<close>.
\<close>

definition abs_diff :: "real \<Rightarrow> real js \<Rightarrow> real option" where
  "abs_diff a b = map_option abs (js_minus (Number (Given a)) (Number b))"

text \<open>
  \<open>x < t\<close> for a decimal literal \<open>t\<close> of the source text, itself read as a double:
  a comparison with \<open>NaN\<close> is false, and so is \<open>Infinity < t\<close>.
\<close>

definition js_less :: "real option \<Rightarrow> real \<Rightarrow> bool" where
  "js_less x t = (case (x, to_double t) of (Some v, Some w) \<Rightarrow> v < w | _ \<Rightarrow> False)"

text \<open>\<open>v || d\<close> on an optional number: \<open>undefined\<close>, \<open>null\<close> and 0 are falsy.\<close>

definition or_default :: "int option \<Rightarrow> int \<Rightarrow> int" where
  "or_default v d = (case v of None \<Rightarrow> d | Some n \<Rightarrow> if n = 0 then d else n)"

section \<open>SQL values\<close>

text \<open>
  Three-valued logic for the \<open>WHERE\<close> clause of the recompute query: \<open>None\<close> is
  \<open>NULL\<close> (unknown). The arithmetic of \<open>DECIMAL\<close> values is exact.
\<close>

definition sql_eq :: "'a option \<Rightarrow> 'a \<Rightarrow> bool option" where
  "sql_eq a b = map_option (\<lambda>x. x = b) a"

definition sql_abs_diff :: "real option \<Rightarrow> real \<Rightarrow> real option" where
  "sql_abs_diff a b = map_option (\<lambda>x. \<bar>x - b\<bar>) a"

definition sql_less :: "real option \<Rightarrow> real \<Rightarrow> bool option" where
  "sql_less a t = map_option (\<lambda>x. x < t) a"

fun sql_and :: "bool option \<Rightarrow> bool option \<Rightarrow> bool option" where
  "sql_and (Some False) _ = Some False"
| "sql_and _ (Some False) = Some False"
| "sql_and (Some True) (Some True) = Some True"
| "sql_and _ _ = None"

text \<open>The value stored for a column with a default when the insert gives \<open>v\<close>.\<close>

fun column_value :: "'a js \<Rightarrow> 'a option \<Rightarrow> 'a option" where
  "column_value Undefined dflt = dflt"
| "column_value Null dflt = None"
| "column_value (Given x) dflt = Some x"

text \<open>
  The range of an \<open>integer\<close> column. A statement that writes a value outside of it
  fails (\<open>integer out of range\<close>) and writes nothing.
\<close>

definition int4 :: "int \<Rightarrow> bool" where
  "int4 n = (- 2147483648 \<le> n \<and> n \<le> 2147483647)"

fun int4_column :: "int js \<Rightarrow> bool" where
  "int4_column (Given n) = int4 n"
| "int4_column _ = True"

text \<open>
  Storing \<open>x\<close> in a \<open>decimal(p, 8)\<close> column: the value is rounded to 8 decimal places,
  halves away from zero, and the statement fails (\<open>numeric field overflow\<close>) unless the
  rounded value is below \<open>bound\<close>, which is \<open>10^(p-8)\<close>, in absolute value.
\<close>

definition round_scale8 :: "real \<Rightarrow> real" where
  "round_scale8 x =
     (if 0 \<le> x then of_int \<lfloor>x * 10 ^ 8 + 1 / 2\<rfloor> / 10 ^ 8
      else - (of_int \<lfloor>- x * 10 ^ 8 + 1 / 2\<rfloor> / 10 ^ 8))"

definition decimal8 :: "real \<Rightarrow> real \<Rightarrow> real option" where
  "decimal8 bound x = (if \<bar>round_scale8 x\<bar> < bound then Some (round_scale8 x) else None)"

section \<open>Storage operations (server/storage.ts)\<close>

text \<open>
  The tier computed at the head of \<open>updateZoneReportCount\<close>, branch for branch
  (the third test assigns \<open>'low'\<close> again).
\<close>

definition classify :: "int \<Rightarrow> string" where
  "classify cnt =
     (if cnt \<ge> 15 then ''high''
      else if cnt \<ge> 6 then ''medium''
      else if cnt \<ge> 4 then ''low''
      else ''low'')"

text \<open>
  \<open>UPDATE unsafe_zones SET report_count, risk_level, updated_at WHERE id = zoneId\<close>;
  \<open>now\<close> is the clock reading of \<open>new Date()\<close>, \<open>cnt\<close> the parameter \<open>count\<close>. The
  statement throws when \<open>cnt\<close> does not fit the integer column.
\<close>

definition updateZoneReportCount ::
  "Db \<Rightarrow> timestamp \<Rightarrow> ident \<Rightarrow> int \<Rightarrow> (error + unit) \<times> Db" where
  "updateZoneReportCount db now zoneId cnt =
     (if int4 cnt
      then (Inr (),
            db\<lparr>unsafeZones :=
                 map (\<lambda>z. if zid z = zoneId
                           then z\<lparr>reportCount := Some cnt,
                                  riskLevel := Some (classify cnt),
                                  updatedAt := now\<rparr>
                           else z)
                     (unsafeZones db)\<rparr>)
      else (Inl StoreFailure, db))"

text \<open>An identifier that no row of the table carries.\<close>

definition fresh_id :: "UnsafeZone list \<Rightarrow> ident" where
  "fresh_id zs = Suc (foldr max (map zid zs) 0)"

text \<open>
  \<open>INSERT INTO unsafe_zones ... RETURNING\<close>. The columns \<open>latitude\<close> and \<open>longitude\<close>
  are \<open>NOT NULL\<close> without default, so a missing or null value makes the statement
  fail; they are \<open>decimal(10,8)\<close> and \<open>decimal(11,8)\<close>, so the values are rounded to 8
  places and must stay below 100 and 1000. \<open>radius\<close>, \<open>report_count\<close> and
  \<open>risk_level\<close> default to 100, 0 and \<open>'low'\<close>, the first two are integer columns;
  both timestamps default to now. A failed statement inserts nothing.
\<close>

definition createUnsafeZone ::
  "Db \<Rightarrow> timestamp \<Rightarrow> InsertUnsafeZone \<Rightarrow> (error + UnsafeZone) \<times> Db" where
  "createUnsafeZone db now insertZone =
     (case (ins_latitude insertZone, ins_longitude insertZone) of
        (Given la, Given lo) \<Rightarrow>
          (case (decimal8 100 la, decimal8 1000 lo) of
             (Some la', Some lo') \<Rightarrow>
               if int4_column (ins_radius insertZone) \<and> int4_column (ins_reportCount insertZone)
               then (let zone = \<lparr>zid = fresh_id (unsafeZones db),
                                  name = ins_name insertZone,
                                  latitude = la',
                                  longitude = lo',
                                  radius = column_value (ins_radius insertZone) (Some 100),
                                  reportCount = column_value (ins_reportCount insertZone) (Some 0),
                                  riskLevel = column_value (ins_riskLevel insertZone) (Some ''low''),
                                  createdAt = now,
                                  updatedAt = now\<rparr>
                     in (Inr zone, db\<lparr>unsafeZones := unsafeZones db @ [zone]\<rparr>))
               else (Inl StoreFailure, db)
           | _ \<Rightarrow> (Inl StoreFailure, db))
      | _ \<Rightarrow> (Inl StoreFailure, db))"

text \<open>\<open>SELECT * FROM unsafe_zones ORDER BY created_at DESC\<close>.\<close>

definition getAllUnsafeZones :: "Db \<Rightarrow> UnsafeZone list" where
  "getAllUnsafeZones db = rev (sort_key createdAt (unsafeZones db))"

text \<open>
  The loop of \<open>createOrUpdateZone\<close> over \<open>existingZones\<close>: the first zone with both
  differences below 0.005 is updated and returned as it was read (an exception of the
  update propagates); when the loop runs out, a new zone is inserted.
\<close>

fun createOrUpdateZone_loop ::
  "Db \<Rightarrow> timestamp \<Rightarrow> ZoneData \<Rightarrow> UnsafeZone list \<Rightarrow> (error + UnsafeZone) \<times> Db" where
  "createOrUpdateZone_loop db now data [] =
     createUnsafeZone db now
       \<lparr>ins_name = data_name data,
        ins_latitude = data_latitude data,
        ins_longitude = data_longitude data,
        ins_radius = Given (or_default (data_radius data) 100),
        ins_reportCount = Given 1,
        ins_riskLevel = Given ''low''\<rparr>"
| "createOrUpdateZone_loop db now data (zone # rest) =
     (let latDiff = abs_diff (latitude zone) (data_latitude data);
          lngDiff = abs_diff (longitude zone) (data_longitude data)
      in if js_less latDiff 0.005 \<and> js_less lngDiff 0.005
         then (let newCount = or_default (reportCount zone) 0 + 1
               in case updateZoneReportCount db now (zid zone) newCount of
                    (Inl e, db') \<Rightarrow> (Inl e, db')
                  | (Inr u, db') \<Rightarrow> (Inr zone, db'))
         else createOrUpdateZone_loop db now data rest)"

definition createOrUpdateZone ::
  "Db \<Rightarrow> timestamp \<Rightarrow> ZoneData \<Rightarrow> (error + UnsafeZone) \<times> Db" where
  "createOrUpdateZone db now data = createOrUpdateZone_loop db now data (unsafeZones db)"

text \<open>
  The count query of \<open>getZonesWithReportCounts\<close> for one zone: the rows of \<open>reports\<close>
  on which the \<open>WHERE\<close> condition is true (not false, not unknown).
\<close>

definition in_zone_condition :: "UnsafeZone \<Rightarrow> Report \<Rightarrow> bool option" where
  "in_zone_condition zone r =
     sql_and
       (sql_and (sql_eq (rep_status r) ''approved'')
                (sql_less (sql_abs_diff (rep_latitude r) (latitude zone)) 0.01))
       (sql_less (sql_abs_diff (rep_longitude r) (longitude zone)) 0.01)"

definition reportsInZone :: "Db \<Rightarrow> UnsafeZone \<Rightarrow> int" where
  "reportsInZone db zone =
     int (length (filter (\<lambda>r. in_zone_condition zone r = Some True) (reports db)))"

text \<open>
  The loop of \<open>getZonesWithReportCounts\<close> over the zones read at its start. An
  exception of an update ends it; the updates made before stay written.
\<close>

fun recompute_loop :: "Db \<Rightarrow> timestamp \<Rightarrow> UnsafeZone list \<Rightarrow> (error + unit) \<times> Db" where
  "recompute_loop db now [] = (Inr (), db)"
| "recompute_loop db now (zone # rest) =
     (let cnt = reportsInZone db zone
      in case updateZoneReportCount db now (zid zone) cnt of
           (Inl e, db') \<Rightarrow> (Inl e, db')
         | (Inr u, db') \<Rightarrow> recompute_loop db' now rest)"

definition getZonesWithReportCounts ::
  "Db \<Rightarrow> timestamp \<Rightarrow> (error + UnsafeZone list) \<times> Db" where
  "getZonesWithReportCounts db now =
     (case recompute_loop db now (unsafeZones db) of
        (Inl e, db') \<Rightarrow> (Inl e, db')
      | (Inr u, db') \<Rightarrow> (Inr (getAllUnsafeZones db'), db'))"

text \<open>\<open>getReport\<close>: the first row with the identifier, if any.\<close>

definition getReport :: "Db \<Rightarrow> ident \<Rightarrow> Report option" where
  "getReport db i = find (\<lambda>r. rep_id r = i) (reports db)"

text \<open>\<open>updateReportStatus\<close>: update by identifier, return the first updated row.\<close>

definition updateReportStatus :: "Db \<Rightarrow> ident \<Rightarrow> string \<Rightarrow> Report option \<times> Db" where
  "updateReportStatus db i status =
     (let db' = db\<lparr>reports :=
                     map (\<lambda>r. if rep_id r = i then r\<lparr>rep_status := Some status\<rparr> else r)
                         (reports db)\<rparr>
      in (find (\<lambda>r. rep_id r = i) (reports db'), db'))"

section \<open>Routes (server/routes.ts)\<close>

text \<open>
  \<open>PATCH /api/reports/:id/approve\<close>. The guard \<open>report.latitude && report.longitude\<close>
  is true exactly when both columns are non-null (a decimal column never reads as the
  empty string). An exception of the storage layer is answered with status 500 after
  the status update has been written.
\<close>

definition approve :: "Db \<Rightarrow> timestamp \<Rightarrow> ident \<Rightarrow> (error + Report option) \<times> Db" where
  "approve db now i =
     (case getReport db i of
        None \<Rightarrow> (Inl NotFound, db)
      | Some report \<Rightarrow>
          (let (updatedReport, db1) = updateReportStatus db i ''approved''
           in case (rep_latitude report, rep_longitude report) of
                (Some la, Some lo) \<Rightarrow>
                  (case createOrUpdateZone db1 now
                          \<lparr>data_name = rep_incidentType report @ '' Zone'',
                           data_latitude = Given la,
                           data_longitude = Given lo,
                           data_radius = Some 100\<rparr> of
                     (Inl e, db2) \<Rightarrow> (Inl e, db2)
                   | (Inr z, db2) \<Rightarrow> (Inr updatedReport, db2))
              | _ \<Rightarrow> (Inr updatedReport, db1)))"

text \<open>
  \<open>POST /api/zones\<close>: \<open>insertUnsafeZoneSchema.parse\<close> requires \<open>latitude\<close> and
  \<open>longitude\<close>, requires \<open>radius\<close> and \<open>reportCount\<close>, when given, to fit the integer
  columns, and passes them and \<open>riskLevel\<close> through (only \<open>id\<close>, \<open>createdAt\<close> and
  \<open>updatedAt\<close> are omitted from the schema); the parsed body goes to
  \<open>createUnsafeZone\<close>.
\<close>

definition insertUnsafeZoneSchema_parse :: "InsertUnsafeZone \<Rightarrow> error + InsertUnsafeZone" where
  "insertUnsafeZoneSchema_parse body =
     (case (ins_latitude body, ins_longitude body) of
        (Given la, Given lo) \<Rightarrow>
          if int4_column (ins_radius body) \<and> int4_column (ins_reportCount body)
          then Inr body else Inl InvalidInput
      | _ \<Rightarrow> Inl InvalidInput)"

definition postZone :: "Db \<Rightarrow> timestamp \<Rightarrow> InsertUnsafeZone \<Rightarrow> (error + UnsafeZone) \<times> Db" where
  "postZone db now body =
     (case insertUnsafeZoneSchema_parse body of
        Inl e \<Rightarrow> (Inl e, db)
      | Inr zoneData \<Rightarrow> createUnsafeZone db now zoneData)"

section \<open>The tier order of the specification\<close>

text \<open>The order low < medium < high on the three tiers, as a rank.\<close>

definition tier_rank :: "string \<Rightarrow> nat" where
  "tier_rank t = (if t = ''high'' then 2 else if t = ''medium'' then 1 else 0)"

section \<open>Auxiliary notions for the proofs\<close>

text \<open>The test of the merge loop on one zone.\<close>

definition merge_match :: "ZoneData \<Rightarrow> UnsafeZone \<Rightarrow> bool" where
  "merge_match d zone =
     (js_less (abs_diff (latitude zone) (data_latitude d)) 0.005 \<and>
      js_less (abs_diff (longitude zone) (data_longitude d)) 0.005)"

text \<open>What one round of the recompute loop writes into the zone it was started for.\<close>

definition recount :: "Db \<Rightarrow> timestamp \<Rightarrow> UnsafeZone \<Rightarrow> UnsafeZone" where
  "recount db now z =
     z\<lparr>reportCount := Some (reportsInZone db z),
       riskLevel := Some (classify (reportsInZone db z)),
       updatedAt := now\<rparr>"

text \<open>Two rows that differ at most in the derived fields and \<open>updatedAt\<close>.\<close>

definition same_frame :: "UnsafeZone \<Rightarrow> UnsafeZone \<Rightarrow> bool" where
  "same_frame z z' = (\<exists>c r u. z' = z\<lparr>reportCount := c, riskLevel := r, updatedAt := u\<rparr>)"

section \<open>Example data\<close>

text \<open>
  The zone and the three approved reports of the recompute example of the
  specification, a second zone close to the first, a pending report and a report
  without coordinates.
\<close>

definition ex_zone :: UnsafeZone where
  "ex_zone = \<lparr>zid = 1, name = ''theft Zone'', latitude = 28.6139, longitude = 77.2090,
               radius = Some 100, reportCount = Some 5, riskLevel = Some ''low'',
               createdAt = 10, updatedAt = 10\<rparr>"

definition ex_zone2 :: UnsafeZone where
  "ex_zone2 = \<lparr>zid = 2, name = ''Market'', latitude = 28.6150, longitude = 77.2100,
                radius = Some 100, reportCount = None, riskLevel = Some ''low'',
                createdAt = 20, updatedAt = 20\<rparr>"

definition ex_report :: "ident \<Rightarrow> real option \<Rightarrow> real option \<Rightarrow> string \<Rightarrow> Report" where
  "ex_report i la lo st =
     \<lparr>rep_id = i, rep_userId = None, rep_location = ''Connaught Place'',
      rep_latitude = la, rep_longitude = lo, rep_incidentType = ''theft'',
      rep_description = None, rep_datetime = 0, rep_anonymous = Some False,
      rep_status = Some st, rep_createdAt = 0\<rparr>"

definition ex_db :: Db where
  "ex_db = \<lparr>reports =
               [ex_report 1 (Some 28.6140) (Some 77.2091) ''approved'',
                ex_report 2 (Some 28.6200) (Some 77.2200) ''approved'',
                ex_report 3 (Some 28.6141) (Some 77.2089) ''approved'',
                ex_report 4 (Some 28.6139) (Some 77.2090) ''pending'',
                ex_report 5 None None ''pending''],
             unsafeZones = [ex_zone, ex_zone2]\<rparr>"

text \<open>A candidate within 0.005 of both zones, and one far from both.\<close>

definition ex_near :: ZoneData where
  "ex_near = \<lparr>data_name = ''theft Zone'', data_latitude = Given 28.6140,
               data_longitude = Given 77.2091, data_radius = Some 100\<rparr>"

definition ex_far :: ZoneData where
  "ex_far = \<lparr>data_name = ''theft Zone'', data_latitude = Given 28.7000,
              data_longitude = Given 77.3000, data_radius = None\<rparr>"

text \<open>
  A candidate exactly 0.005 away from the first zone on both axes, a zone 0.0001 away
  from that candidate, and two stores: the first zone followed by this one, and the first
  zone alone.
\<close>

definition ex_edge :: ZoneData where
  "ex_edge = \<lparr>data_name = ''theft Zone'', data_latitude = Given 28.6189,
               data_longitude = Given 77.2140, data_radius = Some 100\<rparr>"

definition ex_zone3 :: UnsafeZone where
  "ex_zone3 = \<lparr>zid = 4, name = ''Crossing'', latitude = 28.6190, longitude = 77.2141,
                radius = Some 100, reportCount = Some 1, riskLevel = Some ''low'',
                createdAt = 30, updatedAt = 30\<rparr>"

definition ex_edge_db :: Db where
  "ex_edge_db = \<lparr>reports = [], unsafeZones = [ex_zone, ex_zone3]\<rparr>"

definition ex_single_db :: Db where
  "ex_single_db = \<lparr>reports = [], unsafeZones = [ex_zone]\<rparr>"

text \<open>A store whose only zone has the largest count of the integer column.\<close>

definition ex_full_db :: Db where
  "ex_full_db =
     \<lparr>reports = [],
      unsafeZones = [\<lparr>zid = 9, name = ''Station'', latitude = 28.6139, longitude = 77.2090,
                      radius = Some 100, reportCount = Some 2147483647,
                      riskLevel = Some ''high'', createdAt = 5, updatedAt = 5\<rparr>]\<rparr>"

text \<open>A candidate whose latitude does not fit \<open>decimal(10,8)\<close>.\<close>

definition ex_north :: ZoneData where
  "ex_north = \<lparr>data_name = ''theft Zone'', data_latitude = Given 100.5,
                data_longitude = Given 77.2090, data_radius = Some 100\<rparr>"

text \<open>A candidate without coordinates, and a store with one zone next to (0, 0).\<close>

definition ex_null :: ZoneData where
  "ex_null = \<lparr>data_name = ''theft Zone'', data_latitude = Null,
               data_longitude = Null, data_radius = Some 100\<rparr>"

definition ex_origin_db :: Db where
  "ex_origin_db =
     \<lparr>reports = [],
      unsafeZones = [\<lparr>zid = 7, name = ''Gulf'', latitude = 0.001, longitude = 0.002,
                      radius = Some 100, reportCount = Some 2, riskLevel = Some ''low'',
                      createdAt = 3, updatedAt = 3\<rparr>]\<rparr>"

text \<open>A request body for \<open>POST /api/zones\<close> that names its own count and tier.\<close>

definition ex_body :: InsertUnsafeZone where
  "ex_body = \<lparr>ins_name = ''Market'', ins_latitude = Given 28.5, ins_longitude = Given 77.1,
               ins_radius = Undefined, ins_reportCount = Given 99, ins_riskLevel = Given ''low''\<rparr>"

text \<open>The row that request creates in the example store at time 50.\<close>

definition ex_posted :: UnsafeZone where
  "ex_posted = \<lparr>zid = 3, name = ''Market'', latitude = 28.5, longitude = 77.1,
                 radius = Some 100, reportCount = Some 99, riskLevel = Some ''low'',
                 createdAt = 50, updatedAt = 50\<rparr>"

text \<open>
  The body the admin dashboard sends on a map click (\<open>handleMapClick\<close>):
  name, latitude, longitude and \<open>reportCount: 0\<close>.
\<close>

definition ex_click :: InsertUnsafeZone where
  "ex_click = \<lparr>ins_name = ''Underpass'', ins_latitude = Given 28.5, ins_longitude = Given 77.1,
                ins_radius = Undefined, ins_reportCount = Given 0, ins_riskLevel = Undefined\<rparr>"

lemmas ex_defs = ex_db_def ex_zone_def ex_zone2_def ex_report_def ex_near_def ex_far_def
  ex_null_def ex_origin_db_def ex_body_def ex_posted_def ex_click_def ex_edge_def ex_zone3_def
  ex_edge_db_def ex_single_db_def ex_full_db_def ex_north_def

section \<open>Evaluating JavaScript numbers\<close>

lemma log2_up_numeral [simp]:
  "log2_up (numeral k) x = (if 2 \<le> x then 1 + log2_up (pred_numeral k) (x / 2) else 0)"
  by (simp add: numeral_eq_Suc)

lemma log2_down_numeral [simp]:
  "log2_down (numeral k) x = (if x < 1 then log2_down (pred_numeral k) (2 * x) - 1 else 0)"
  by (simp add: numeral_eq_Suc)

lemmas js_eval = abs_diff_def js_minus_def js_less_def to_double_def binade_def pow2_def
  round_half_even_def Let_def

lemmas sql_eval = round_scale8_def decimal8_def int4_def

section \<open>The threshold test in double arithmetic\<close>

lemma pow2_pos: "0 < pow2 k"
  by (simp add: pow2_def)

lemma pow2_powr: "pow2 k = 2 powr (of_int k)"
proof (cases "0 \<le> k")
  case True
  then have "2 powr (of_int k) = (2::real) powr (real (nat k))" by simp
  also have "\<dots> = 2 ^ nat k" by (simp add: powr_realpow)
  finally show ?thesis using True by (simp add: pow2_def)
next
  case False
  then have "2 powr (of_int k) = (2::real) powr (- real (nat (- k)))" by simp
  also have "\<dots> = 1 / 2 ^ nat (- k)" by (simp add: powr_minus powr_realpow divide_inverse)
  finally show ?thesis using False by (simp add: pow2_def)
qed

lemma pow2_mono: "k \<le> m \<Longrightarrow> pow2 k \<le> pow2 m"
  by (simp add: pow2_powr)

lemma log2_up_le: "x < 2 ^ Suc k \<Longrightarrow> log2_up n x \<le> int k"
proof (induction n arbitrary: x k)
  case 0
  then show ?case by simp
next
  case (Suc n)
  show ?case
  proof (cases "2 \<le> x")
    case False
    then show ?thesis by simp
  next
    case True
    with Suc.prems obtain j where k: "k = Suc j"
      by (cases k) auto
    have "x / 2 < 2 ^ Suc j"
      using Suc.prems by (simp add: k)
    from Suc.IH [OF this] True show ?thesis
      by (simp add: k)
  qed
qed

lemma log2_down_le: "log2_down n x \<le> 0"
proof (induction n arbitrary: x)
  case 0
  then show ?case by simp
next
  case (Suc n)
  from Suc.IH [of "2 * x"] show ?case by simp
qed

lemma binade_le: "\<bar>x\<bar> < 2048 \<Longrightarrow> binade x \<le> 10"
  using log2_up_le [of "\<bar>x\<bar>" 10 1100] log2_down_le [of 1022 "\<bar>x\<bar>"]
  by (simp add: binade_def del: log2_up_numeral log2_down_numeral)

lemma round_half_even_err: "\<bar>of_int (round_half_even q) - q\<bar> \<le> 1 / 2"
  unfolding round_half_even_def Let_def by (auto split: if_splits; linarith)

lemma to_double_err:
  assumes "\<bar>x\<bar> < 2048"
  shows "\<exists>y. to_double x = Some y \<and> \<bar>y - x\<bar> \<le> 1 / 2 ^ 43"
proof (cases "x = 0")
  case True
  then show ?thesis by (simp add: to_double_def)
next
  case False
  define u where "u = pow2 (binade x - 52)"
  define y where "y = of_int (round_half_even (x / u)) * u"
  have u0: "0 < u" by (simp add: u_def pow2_pos)
  have "u \<le> pow2 (- 42)"
    unfolding u_def using binade_le [OF assms] by (intro pow2_mono) simp
  then have u1: "u \<le> 1 / 2 ^ 42" by (simp add: pow2_def)
  have "y - x = (of_int (round_half_even (x / u)) - x / u) * u"
    using u0 by (simp add: y_def field_simps)
  then have "\<bar>y - x\<bar> = \<bar>of_int (round_half_even (x / u)) - x / u\<bar> * u"
    using u0 by (simp add: abs_mult)
  also have "\<dots> \<le> (1 / 2) * u"
    using round_half_even_err [of "x / u"] u0 by (intro mult_right_mono) simp_all
  also have "\<dots> \<le> 1 / 2 ^ 43"
    using u1 by simp
  finally have e: "\<bar>y - x\<bar> \<le> 1 / 2 ^ 43" .
  moreover have "(1::real) / 2 ^ 43 \<le> 1"
    by simp
  ultimately have "\<bar>y\<bar> < 2049"
    using assms by linarith
  then have "\<not> pow2 1024 \<le> \<bar>y\<bar>"
    by (simp add: pow2_def)
  then have "to_double x = Some y"
    using False by (simp add: to_double_def Let_def u_def y_def)
  with e show ?thesis by blast
qed


lemma double_005: "to_double 0.005 = Some (5764607523034235 / 2 ^ 60)"
  by (simp add: to_double_def binade_def pow2_def round_half_even_def Let_def)

lemma abs_diff_err:
  assumes "\<bar>a\<bar> \<le> 1000" and "\<bar>b\<bar> \<le> 1000"
  shows "\<exists>v. abs_diff a (Given b) = Some v \<and> \<bar>v - \<bar>a - b\<bar>\<bar> \<le> 3 / 2 ^ 43"
proof -
  from to_double_err [of a] assms obtain a' where a: "to_double a = Some a'" "\<bar>a' - a\<bar> \<le> 1 / 2 ^ 43"
    by auto
  from to_double_err [of b] assms obtain b' where b: "to_double b = Some b'" "\<bar>b' - b\<bar> \<le> 1 / 2 ^ 43"
    by auto
  have s: "(1::real) / 2 ^ 43 \<le> 1"
    by simp
  have "\<bar>a' - b'\<bar> < 2048"
    using a(2) b(2) assms s by linarith
  from to_double_err [OF this] obtain d where d: "to_double (a' - b') = Some d"
    "\<bar>d - (a' - b')\<bar> \<le> 1 / 2 ^ 43"
    by auto
  have "abs_diff a (Given b) = Some \<bar>d\<bar>"
    by (simp add: abs_diff_def js_minus_def a b d)
  moreover have "\<bar>\<bar>d\<bar> - \<bar>a - b\<bar>\<bar> \<le> 3 * (1 / 2 ^ 43)"
    using a(2) b(2) d(2) by linarith
  then have "\<bar>\<bar>d\<bar> - \<bar>a - b\<bar>\<bar> \<le> 3 / 2 ^ 43"
    by simp
  ultimately show ?thesis by blast
qed

text \<open>
  The test of the merge loop against the threshold of the specification. For
  coordinates between -1000 and 1000 the computed difference is within \<open>3 / 2^43\<close> of
  the exact one, so the test holds when the exact difference is at most
  \<open>0.005 - 10^-8\<close> and fails when it is at least \<open>0.005 + 10^-8\<close>.
\<close>

lemma double_test_exact:
  assumes "\<bar>a\<bar> \<le> 1000" and "\<bar>b\<bar> \<le> 1000"
  shows "(\<bar>a - b\<bar> \<le> 0.005 - 1 / 10 ^ 8 \<longrightarrow> js_less (abs_diff a (Given b)) 0.005) \<and>
         (0.005 + 1 / 10 ^ 8 \<le> \<bar>a - b\<bar> \<longrightarrow> \<not> js_less (abs_diff a (Given b)) 0.005)"
proof -
  from abs_diff_err [OF assms] obtain v where v: "abs_diff a (Given b) = Some v"
    "\<bar>v - \<bar>a - b\<bar>\<bar> \<le> 3 / 2 ^ 43"
    by blast
  define t :: real where "t = 5764607523034235 / 2 ^ 60"
  have l: "js_less (abs_diff a (Given b)) 0.005 \<longleftrightarrow> v < t"
    unfolding js_less_def v double_005 t_def by simp
  have t: "0.005 - 1 / 10 ^ 8 + 1 / 10 ^ 9 < t" "t < 0.005 + 1 / 10 ^ 8 - 1 / 10 ^ 9"
    by (simp_all add: t_def)
  have "(3::real) / 2 ^ 43 \<le> 1 / 10 ^ 9"
    by simp
  with v(2) have "\<bar>v - \<bar>a - b\<bar>\<bar> \<le> 1 / 10 ^ 9"
    by linarith
  with t show ?thesis
    unfolding l by linarith
qed


text \<open>
  For coordinates with at most 8 decimal places, as the decimal columns hold them, the
  test therefore agrees with the exact difference being below 0.005 unless the difference is
  exactly 0.005; there the outcome depends on the rounding of the operands.
\<close>

lemma double_test_decimal8:
  assumes "\<bar>a\<bar> \<le> 1000" and "\<bar>b\<bar> \<le> 1000"
    and "a * 10 ^ 8 = of_int k" and "b * 10 ^ 8 = of_int m"
    and "\<bar>a - b\<bar> \<noteq> 0.005"
  shows "js_less (abs_diff a (Given b)) 0.005 \<longleftrightarrow> \<bar>a - b\<bar> < 0.005"
proof -
  define n where "n = \<bar>k - m\<bar>"
  have e: "(a - b) * 10 ^ 8 = of_int (k - m)"
    using assms(3,4) by (simp add: algebra_simps)
  have "\<bar>a - b\<bar> * 10 ^ 8 = \<bar>(a - b) * 10 ^ 8\<bar>"
    by (rule abs_mult_pos) simp
  also have "\<dots> = of_int n"
    unfolding e n_def by (rule of_int_abs [symmetric])
  finally have "\<bar>a - b\<bar> * 10 ^ 8 = of_int n" .
  then have d: "\<bar>a - b\<bar> = of_int n / 10 ^ 8"
    by (simp add: field_simps)
  from assms(5) have "n \<noteq> 500000"
    unfolding d by auto
  then consider "n \<le> 499999" | "500001 \<le> n"
    by linarith
  then show ?thesis
  proof cases
    case 1
    then have "(of_int n :: real) \<le> 499999"
      by (metis of_int_le_iff of_int_numeral)
    then have "\<bar>a - b\<bar> \<le> 0.005 - 1 / 10 ^ 8"
      unfolding d by simp
    moreover from this have "\<bar>a - b\<bar> < 0.005"
      by simp
    ultimately show ?thesis
      using double_test_exact [OF assms(1,2)] by blast
  next
    case 2
    then have "(500001 :: real) \<le> of_int n"
      by (metis of_int_le_iff of_int_numeral)
    then have "0.005 + 1 / 10 ^ 8 \<le> \<bar>a - b\<bar>"
      unfolding d by simp
    moreover from this have "\<not> \<bar>a - b\<bar> < 0.005"
      by simp
    ultimately show ?thesis
      using double_test_exact [OF assms(1,2)] by blast
  qed
qed

section \<open>The risk classifier\<close>

lemma classify_cases:
  "classify c = (if 15 \<le> c then ''high'' else if 6 \<le> c then ''medium'' else ''low'')"
  by (simp add: classify_def)

text \<open>
  Claim C7. The classifier is a total function of the count into the three tiers:
  high from 15 on, medium from 6 to 14, low below 6; so 0 and 5 are low, 6 and 14 are
  medium, 15 is high, and it is monotone for the order low < medium < high.
\<close>

theorem classify_tiers:
  "classify c \<in> {''low'', ''medium'', ''high''} \<and>
   (15 \<le> c \<longrightarrow> classify c = ''high'') \<and>
   (6 \<le> c \<and> c < 15 \<longrightarrow> classify c = ''medium'') \<and>
   (c < 6 \<longrightarrow> classify c = ''low'') \<and>
   classify 0 = ''low'' \<and> classify 5 = ''low'' \<and> classify 6 = ''medium'' \<and>
   classify 14 = ''medium'' \<and> classify 15 = ''high'' \<and>
   (0 \<le> a \<and> a \<le> b \<longrightarrow> tier_rank (classify a) \<le> tier_rank (classify b))"
  by (simp add: classify_cases tier_rank_def)

theorem classify_tiers_witness:
  "(15::int) \<le> 20 \<and> classify 20 = ''high'' \<and>
   (6::int) \<le> 7 \<and> (7::int) < 15 \<and> classify 7 = ''medium'' \<and>
   (3::int) < 6 \<and> classify 3 = ''low'' \<and>
   (0::int) \<le> 3 \<and> (3::int) \<le> 20 \<and> tier_rank (classify 3) \<le> tier_rank (classify 20)"
  using classify_tiers [of 20 3 20] classify_tiers [of 7 0 0] classify_tiers [of 3 0 0]
  by (simp add: tier_rank_def)

section \<open>The merge-on-approval path\<close>

lemma updateZoneReportCount_ok:
  "int4 c \<Longrightarrow>
   updateZoneReportCount db now i c =
     (Inr (), db\<lparr>unsafeZones :=
                  map (\<lambda>z. if zid z = i
                            then z\<lparr>reportCount := Some c, riskLevel := Some (classify c),
                                   updatedAt := now\<rparr>
                            else z)
                      (unsafeZones db)\<rparr>)"
  by (simp add: updateZoneReportCount_def)

lemma updateZoneReportCount_fail:
  "\<not> int4 c \<Longrightarrow> updateZoneReportCount db now i c = (Inl StoreFailure, db)"
  by (simp add: updateZoneReportCount_def)

lemma merge_match_Given:
  "data_latitude d = Given la \<Longrightarrow> data_longitude d = Given lo \<Longrightarrow>
   merge_match d zone =
     (js_less (abs_diff (latitude zone) (Given la)) 0.005 \<and>
      js_less (abs_diff (longitude zone) (Given lo)) 0.005)"
  by (simp add: merge_match_def)

lemma loop_find:
  "createOrUpdateZone_loop db now d zs =
     (case find (merge_match d) zs of
        None \<Rightarrow>
          createUnsafeZone db now
            \<lparr>ins_name = data_name d, ins_latitude = data_latitude d,
             ins_longitude = data_longitude d,
             ins_radius = Given (or_default (data_radius d) 100),
             ins_reportCount = Given 1, ins_riskLevel = Given ''low''\<rparr>
      | Some zone \<Rightarrow>
          (case updateZoneReportCount db now (zid zone) (or_default (reportCount zone) 0 + 1) of
             (Inl e, db') \<Rightarrow> (Inl e, db')
           | (Inr u, db') \<Rightarrow> (Inr zone, db')))"
  by (induction zs) (simp_all add: Let_def merge_match_def)

lemma or_default_0: "or_default v 0 = (case v of None \<Rightarrow> 0 | Some c \<Rightarrow> c)"
  by (simp add: or_default_def split: option.splits)

lemma fresh_id_gt: "z \<in> set zs \<Longrightarrow> zid z < fresh_id zs"
  by (induction zs) (auto simp: fresh_id_def)

lemma fresh_id_new: "fresh_id zs \<notin> zid ` set zs"
proof
  assume "fresh_id zs \<in> zid ` set zs"
  then obtain z where "z \<in> set zs" "zid z = fresh_id zs" by auto
  with fresh_id_gt [of z zs] show False by simp
qed

lemma createUnsafeZone_Given:
  assumes "ins_latitude i = Given la" and "ins_longitude i = Given lo"
    and "\<bar>round_scale8 la\<bar> < 100" and "\<bar>round_scale8 lo\<bar> < 1000"
    and "int4_column (ins_radius i)" and "int4_column (ins_reportCount i)"
  shows "createUnsafeZone db now i =
     (Inr \<lparr>zid = fresh_id (unsafeZones db), name = ins_name i,
           latitude = round_scale8 la, longitude = round_scale8 lo,
           radius = column_value (ins_radius i) (Some 100),
           reportCount = column_value (ins_reportCount i) (Some 0),
           riskLevel = column_value (ins_riskLevel i) (Some ''low''),
           createdAt = now, updatedAt = now\<rparr>,
      db\<lparr>unsafeZones := unsafeZones db @
           [\<lparr>zid = fresh_id (unsafeZones db), name = ins_name i,
           latitude = round_scale8 la, longitude = round_scale8 lo,
           radius = column_value (ins_radius i) (Some 100),
           reportCount = column_value (ins_reportCount i) (Some 0),
           riskLevel = column_value (ins_riskLevel i) (Some ''low''),
           createdAt = now, updatedAt = now\<rparr>]\<rparr>)"
  using assms by (simp add: createUnsafeZone_def decimal8_def Let_def)

lemma round_scale8_exact:
  assumes "x * 10 ^ 8 = of_int k"
  shows "round_scale8 x = x"
proof -
  have f: "\<lfloor>of_int j + (1 / 2 :: real)\<rfloor> = j" for j :: int
    by linarith
  have x: "x = of_int k / 10 ^ 8"
    using assms by (simp add: field_simps)
  show ?thesis
  proof (cases "0 \<le> x")
    case True
    then show ?thesis
      by (simp add: round_scale8_def assms f) (simp add: x)
  next
    case False
    have "- x * 10 ^ 8 = of_int (- k)"
      using assms by simp
    with False show ?thesis
      by (simp add: round_scale8_def f del: of_int_minus)
  qed
qed

lemma map_update_at:
  assumes "distinct (map zid zs)" and "i < length zs"
  shows "map (\<lambda>z. if zid z = zid (zs ! i) then f z else z) zs = zs[i := f (zs ! i)]"
proof (rule nth_equalityI)
  show "length (map (\<lambda>z. if zid z = zid (zs ! i) then f z else z) zs) = length (zs[i := f (zs ! i)])"
    by simp
next
  fix j assume "j < length (map (\<lambda>z. if zid z = zid (zs ! i) then f z else z) zs)"
  then have j: "j < length zs" by simp
  have "zid (zs ! j) = zid (zs ! i) \<longleftrightarrow> j = i"
    using assms j nth_eq_iff_index_eq [of "map zid zs" j i] by simp
  then show "map (\<lambda>z. if zid z = zid (zs ! i) then f z else z) zs ! j = zs[i := f (zs ! i)] ! j"
    using j by (simp add: nth_list_update)
qed

text \<open>
  Claim C2, as stated, fails. The code compares doubles: in the first example the
  first zone is exactly 0.005 away from the candidate on both axes, so it is not within
  less than 0.005, the second zone is; yet both computed differences are below the
  double 0.005 and the code increments the first zone and leaves the second.
  In the second example the zone within 0.005 has the count 2147483647: the update to
  2147483648 fails and nothing is incremented.
\<close>

theorem merge_into_first_match_counterexample:
  "\<not> (\<bar>latitude ex_zone - 28.6189\<bar> < 0.005 \<and> \<bar>longitude ex_zone - 77.2140\<bar> < 0.005) \<and>
   \<bar>latitude ex_zone3 - 28.6189\<bar> < 0.005 \<and> \<bar>longitude ex_zone3 - 77.2140\<bar> < 0.005 \<and>
   snd (createOrUpdateZone ex_edge_db 50 ex_edge) =
     ex_edge_db\<lparr>unsafeZones :=
       [ex_zone\<lparr>reportCount := Some 6, riskLevel := Some ''medium'', updatedAt := 50\<rparr>, ex_zone3]\<rparr> \<and>
   \<bar>latitude (hd (unsafeZones ex_full_db)) - 28.6140\<bar> < 0.005 \<and>
   \<bar>longitude (hd (unsafeZones ex_full_db)) - 77.2091\<bar> < 0.005 \<and>
   createOrUpdateZone ex_full_db 50 ex_near = (Inl StoreFailure, ex_full_db)"
  by (simp add: createOrUpdateZone_def updateZoneReportCount_def or_default_def classify_def
        int4_def js_eval ex_defs)

text \<open>
  Claim C2, amended. The identifiers of the zone table are its primary key. For a
  candidate with coordinates and a store holding a zone for which the test of the code,
  \<open>Math.abs(Number(zone) - Number(candidate)) < 0.005\<close> in double arithmetic, holds on
  both axes, \<open>createOrUpdateZone\<close> picks the first such zone in listing order. When its
  count (a null count reads as 0) plus one fits the integer column, exactly that row
  changes: it gets the new count, the tier of the new count and the current time as
  \<open>updatedAt\<close>; no row is added, every other zone and every report is unchanged.
  Otherwise the call fails with the store's failure and changes nothing.
\<close>

theorem merge_into_first_match:
  assumes pk: "distinct (map zid (unsafeZones db))"
    and la: "data_latitude d = Given la" and lo: "data_longitude d = Given lo"
    and ex: "\<exists>z \<in> set (unsafeZones db).
               js_less (abs_diff (latitude z) (Given la)) 0.005 \<and>
               js_less (abs_diff (longitude z) (Given lo)) 0.005"
  shows "\<exists>i < length (unsafeZones db).
           (js_less (abs_diff (latitude (unsafeZones db ! i)) (Given la)) 0.005 \<and>
            js_less (abs_diff (longitude (unsafeZones db ! i)) (Given lo)) 0.005) \<and>
           (\<forall>j < i. \<not> (js_less (abs_diff (latitude (unsafeZones db ! j)) (Given la)) 0.005 \<and>
                        js_less (abs_diff (longitude (unsafeZones db ! j)) (Given lo)) 0.005)) \<and>
           (if int4 ((case reportCount (unsafeZones db ! i) of None \<Rightarrow> 0 | Some c \<Rightarrow> c) + 1)
            then (\<exists>z. fst (createOrUpdateZone db now d) = Inr z) \<and>
                 snd (createOrUpdateZone db now d) =
                   db\<lparr>unsafeZones := (unsafeZones db)
                        [i := (unsafeZones db ! i)
                           \<lparr>reportCount := Some ((case reportCount (unsafeZones db ! i) of None \<Rightarrow> 0 | Some c \<Rightarrow> c) + 1),
                            riskLevel := Some (classify ((case reportCount (unsafeZones db ! i) of None \<Rightarrow> 0 | Some c \<Rightarrow> c) + 1)),
                            updatedAt := now\<rparr>]\<rparr>
            else createOrUpdateZone db now d = (Inl StoreFailure, db))"
proof -
  let ?zs = "unsafeZones db"
  from ex have "\<exists>z \<in> set ?zs. merge_match d z"
    by (simp add: merge_match_Given [OF la lo])
  then obtain zone where f: "find (merge_match d) ?zs = Some zone"
    by (cases "find (merge_match d) ?zs") (auto simp: find_None_iff)
  then obtain i where i: "i < length ?zs" "merge_match d (?zs ! i)" "zone = ?zs ! i"
    "\<forall>j<i. \<not> merge_match d (?zs ! j)"
    by (auto simp: find_Some_iff)
  let ?c = "(case reportCount (?zs ! i) of None \<Rightarrow> 0 | Some c \<Rightarrow> c) + 1"
  have r: "createOrUpdateZone db now d =
          (case updateZoneReportCount db now (zid (?zs ! i)) ?c of
             (Inl e, db') \<Rightarrow> (Inl e, db')
           | (Inr u, db') \<Rightarrow> (Inr (?zs ! i), db'))"
    by (simp add: createOrUpdateZone_def loop_find f i(3) or_default_0)
  have "if int4 ?c
        then (\<exists>z. fst (createOrUpdateZone db now d) = Inr z) \<and>
             snd (createOrUpdateZone db now d) =
               db\<lparr>unsafeZones := ?zs
                    [i := (?zs ! i)\<lparr>reportCount := Some ?c, riskLevel := Some (classify ?c),
                                  updatedAt := now\<rparr>]\<rparr>
        else createOrUpdateZone db now d = (Inl StoreFailure, db)"
  proof (cases "int4 ?c")
    case True
    have "map (\<lambda>z. if zid z = zid (?zs ! i)
                    then z\<lparr>reportCount := Some ?c, riskLevel := Some (classify ?c), updatedAt := now\<rparr>
                    else z) ?zs =
          ?zs[i := (?zs ! i)\<lparr>reportCount := Some ?c, riskLevel := Some (classify ?c), updatedAt := now\<rparr>]"
      by (rule map_update_at [OF pk i(1)])
    with True show ?thesis
      by (simp add: r updateZoneReportCount_ok)
  next
    case False
    then show ?thesis
      by (simp add: r updateZoneReportCount_fail)
  qed
  with i show ?thesis
    by (auto simp: merge_match_Given [OF la lo])
qed

theorem merge_into_first_match_witness:
  "distinct (map zid (unsafeZones ex_db)) \<and>
   data_latitude ex_near = Given 28.6140 \<and> data_longitude ex_near = Given 77.2091 \<and>
   ex_zone \<in> set (unsafeZones ex_db) \<and>
   js_less (abs_diff (latitude ex_zone) (Given 28.6140)) 0.005 \<and>
   js_less (abs_diff (longitude ex_zone) (Given 77.2091)) 0.005 \<and>
   int4 6 \<and>
   snd (createOrUpdateZone ex_db 50 ex_near) =
     ex_db\<lparr>unsafeZones :=
       [ex_zone\<lparr>reportCount := Some 6, riskLevel := Some ''medium'', updatedAt := 50\<rparr>, ex_zone2]\<rparr>"
proof -
  have pk: "distinct (map zid (unsafeZones ex_db))"
    by (simp add: ex_defs)
  have la: "data_latitude ex_near = Given 28.6140" and lo: "data_longitude ex_near = Given 77.2091"
    by (simp_all add: ex_defs)
  have m: "ex_zone \<in> set (unsafeZones ex_db)"
    "js_less (abs_diff (latitude ex_zone) (Given 28.6140)) 0.005 \<and>
     js_less (abs_diff (longitude ex_zone) (Given 77.2091)) 0.005"
    by (simp_all add: ex_defs js_eval)
  then have ex: "\<exists>z \<in> set (unsafeZones ex_db).
                  js_less (abs_diff (latitude z) (Given 28.6140)) 0.005 \<and>
                  js_less (abs_diff (longitude z) (Given 77.2091)) 0.005"
    by blast
  have z0: "unsafeZones ex_db ! 0 = ex_zone"
    by (simp add: ex_db_def)
  have c: "(case reportCount ex_zone of None \<Rightarrow> 0 | Some c \<Rightarrow> c) + 1 = 6" and i4: "int4 6"
    by (simp_all add: ex_zone_def int4_def)
  from merge_into_first_match [OF pk la lo ex, of 50]
  obtain i where i: "i < length (unsafeZones ex_db)"
    "\<forall>j < i. \<not> (js_less (abs_diff (latitude (unsafeZones ex_db ! j)) (Given 28.6140)) 0.005 \<and>
                  js_less (abs_diff (longitude (unsafeZones ex_db ! j)) (Given 77.2091)) 0.005)"
    "if int4 ((case reportCount (unsafeZones ex_db ! i) of None \<Rightarrow> 0 | Some c \<Rightarrow> c) + 1)
     then (\<exists>z. fst (createOrUpdateZone ex_db 50 ex_near) = Inr z) \<and>
       snd (createOrUpdateZone ex_db 50 ex_near) =
       ex_db\<lparr>unsafeZones := (unsafeZones ex_db)
         [i := (unsafeZones ex_db ! i)
            \<lparr>reportCount := Some ((case reportCount (unsafeZones ex_db ! i) of None \<Rightarrow> 0 | Some c \<Rightarrow> c) + 1),
             riskLevel := Some (classify ((case reportCount (unsafeZones ex_db ! i) of None \<Rightarrow> 0 | Some c \<Rightarrow> c) + 1)),
             updatedAt := 50\<rparr>]\<rparr>
     else createOrUpdateZone ex_db 50 ex_near = (Inl StoreFailure, ex_db)"
    by blast
  from m(2) i(2) z0 have "i = 0"
    by (cases i) auto
  with i(3) have "snd (createOrUpdateZone ex_db 50 ex_near) =
     ex_db\<lparr>unsafeZones := (unsafeZones ex_db)
       [0 := ex_zone\<lparr>reportCount := Some 6, riskLevel := Some (classify 6), updatedAt := 50\<rparr>]\<rparr>"
    by (simp add: z0 c i4)
  then have "snd (createOrUpdateZone ex_db 50 ex_near) =
     ex_db\<lparr>unsafeZones :=
       [ex_zone\<lparr>reportCount := Some 6, riskLevel := Some ''medium'', updatedAt := 50\<rparr>, ex_zone2]\<rparr>"
    by (simp add: ex_db_def classify_def)
  with pk la lo m i4 show ?thesis by simp
qed

text \<open>
  Claim C3, as stated, fails. In the first example the only zone is exactly 0.005 away
  from the candidate on both axes, so no zone is within less than 0.005; the code, which
  compares doubles, still merges the candidate into that zone and creates none.
  In the second example no zone is near the candidate, whose latitude 100.5 does not fit
  the column: the insert fails and no zone is created.
\<close>

theorem create_when_no_match_counterexample:
  "unsafeZones ex_single_db = [ex_zone] \<and>
   \<not> (\<bar>latitude ex_zone - 28.6189\<bar> < 0.005 \<and> \<bar>longitude ex_zone - 77.2140\<bar> < 0.005) \<and>
   data_latitude ex_edge = Given 28.6189 \<and> data_longitude ex_edge = Given 77.2140 \<and>
   snd (createOrUpdateZone ex_single_db 50 ex_edge) =
     ex_single_db\<lparr>unsafeZones :=
       [ex_zone\<lparr>reportCount := Some 6, riskLevel := Some ''medium'', updatedAt := 50\<rparr>]\<rparr> \<and>
   \<not> (\<bar>latitude ex_zone - 100.5\<bar> < 0.005 \<and> \<bar>longitude ex_zone - 77.2090\<bar> < 0.005) \<and>
   data_latitude ex_north = Given 100.5 \<and> data_longitude ex_north = Given 77.2090 \<and>
   createOrUpdateZone ex_single_db 50 ex_north = (Inl StoreFailure, ex_single_db)"
  by (simp add: createOrUpdateZone_def updateZoneReportCount_def createUnsafeZone_def
        or_default_def classify_def js_eval sql_eval ex_defs)

text \<open>
  Claim C3, amended. For a candidate with coordinates that fit the zone columns (rounded
  to 8 places, the latitude is below 100 and the longitude below 1000 in absolute
  value) and a store in which no zone passes the test of the code on both axes,
  \<open>Math.abs(Number(zone) - Number(candidate)) < 0.005\<close> in double arithmetic,
  \<open>createOrUpdateZone\<close> appends exactly one zone, with a new identifier, the candidate's
  name, its coordinates rounded to 8 places (the coordinates themselves when they have
  at most 8 places), count 1 and tier low, and returns it; all existing zones and the
  reports are unchanged. Its radius is the candidate's radius when it has one other than
  0, which has to fit the integer column, and the default 100 otherwise: 100 for a
  candidate of name and coordinates only, and for the radius 100 that the approve route
  passes.
\<close>

theorem create_when_no_match:
  assumes la: "data_latitude d = Given la" and lo: "data_longitude d = Given lo"
    and no: "\<forall>z \<in> set (unsafeZones db).
               \<not> (js_less (abs_diff (latitude z) (Given la)) 0.005 \<and>
                  js_less (abs_diff (longitude z) (Given lo)) 0.005)"
    and rla: "\<bar>round_scale8 la\<bar> < 100" and rlo: "\<bar>round_scale8 lo\<bar> < 1000"
    and rad: "int4 (case data_radius d of None \<Rightarrow> 100 | Some r \<Rightarrow> if r = 0 then 100 else r)"
  shows "\<exists>zone. createOrUpdateZone db now d = (Inr zone, db\<lparr>unsafeZones := unsafeZones db @ [zone]\<rparr>) \<and>
           zid zone \<notin> zid ` set (unsafeZones db) \<and>
           name zone = data_name d \<and>
           latitude zone = round_scale8 la \<and> longitude zone = round_scale8 lo \<and>
           (\<forall>k. la * 10 ^ 8 = of_int k \<longrightarrow> latitude zone = la) \<and>
           (\<forall>k. lo * 10 ^ 8 = of_int k \<longrightarrow> longitude zone = lo) \<and>
           reportCount zone = Some 1 \<and> riskLevel zone = Some ''low'' \<and>
           radius zone = Some (case data_radius d of None \<Rightarrow> 100 | Some r \<Rightarrow> if r = 0 then 100 else r) \<and>
           (data_radius d = None \<or> data_radius d = Some 100 \<longrightarrow> radius zone = Some 100)"
proof -
  let ?zone = "\<lparr>zid = fresh_id (unsafeZones db), name = data_name d,
           latitude = round_scale8 la, longitude = round_scale8 lo,
           radius = Some (or_default (data_radius d) 100),
           reportCount = Some 1, riskLevel = Some ''low'',
           createdAt = now, updatedAt = now\<rparr>"
  have 3: "or_default (data_radius d) 100 = (case data_radius d of None \<Rightarrow> 100 | Some r \<Rightarrow> if r = 0 then 100 else r)"
    by (simp add: or_default_def)
  from no have "find (merge_match d) (unsafeZones db) = None"
    by (simp add: find_None_iff merge_match_Given [OF la lo])
  then have 1: "createOrUpdateZone db now d = (Inr ?zone, db\<lparr>unsafeZones := unsafeZones db @ [?zone]\<rparr>)"
    using rad
    by (simp add: createOrUpdateZone_def loop_find 3
          createUnsafeZone_Given [where la = la and lo = lo] la lo rla rlo int4_def)
  have 2: "zid ?zone \<notin> zid ` set (unsafeZones db)"
    using fresh_id_new [of "unsafeZones db"] by simp
  have 4: "data_radius d = None \<or> data_radius d = Some 100 \<longrightarrow> radius ?zone = Some 100"
    by (auto simp: or_default_def)
  have 5: "\<forall>k. la * 10 ^ 8 = of_int k \<longrightarrow> latitude ?zone = la"
    "\<forall>k. lo * 10 ^ 8 = of_int k \<longrightarrow> longitude ?zone = lo"
    by (simp_all add: round_scale8_exact)
  show ?thesis
    apply (rule exI [of _ ?zone])
    using 1 2 3 4 5 by simp
qed

theorem create_when_no_match_witness:
  "data_latitude ex_far = Given 28.7000 \<and> data_longitude ex_far = Given 77.3000 \<and>
   data_radius ex_far = None \<and>
   \<not> (js_less (abs_diff (latitude ex_zone) (Given 28.7000)) 0.005 \<and>
      js_less (abs_diff (longitude ex_zone) (Given 77.3000)) 0.005) \<and>
   \<not> (js_less (abs_diff (latitude ex_zone2) (Given 28.7000)) 0.005 \<and>
      js_less (abs_diff (longitude ex_zone2) (Given 77.3000)) 0.005) \<and>
   \<bar>round_scale8 28.7000\<bar> < 100 \<and> \<bar>round_scale8 77.3000\<bar> < 1000 \<and> int4 100 \<and>
   createOrUpdateZone ex_db 50 ex_far =
     (Inr \<lparr>zid = 3, name = ''theft Zone'', latitude = 28.7000, longitude = 77.3000,
           radius = Some 100, reportCount = Some 1, riskLevel = Some ''low'',
           createdAt = 50, updatedAt = 50\<rparr>,
      ex_db\<lparr>unsafeZones := [ex_zone, ex_zone2,
           \<lparr>zid = 3, name = ''theft Zone'', latitude = 28.7000, longitude = 77.3000,
           radius = Some 100, reportCount = Some 1, riskLevel = Some ''low'',
           createdAt = 50, updatedAt = 50\<rparr>]\<rparr>)"
proof -
  have la: "data_latitude ex_far = Given 28.7000" and lo: "data_longitude ex_far = Given 77.3000"
    and r: "data_radius ex_far = None"
    by (simp_all add: ex_defs)
  have n1: "\<not> (js_less (abs_diff (latitude ex_zone) (Given 28.7000)) 0.005 \<and>
      js_less (abs_diff (longitude ex_zone) (Given 77.3000)) 0.005)"
    and n2: "\<not> (js_less (abs_diff (latitude ex_zone2) (Given 28.7000)) 0.005 \<and>
      js_less (abs_diff (longitude ex_zone2) (Given 77.3000)) 0.005)"
    by (simp_all add: ex_defs js_eval)
  then have no: "\<forall>z \<in> set (unsafeZones ex_db).
                  \<not> (js_less (abs_diff (latitude z) (Given 28.7000)) 0.005 \<and>
                     js_less (abs_diff (longitude z) (Given 77.3000)) 0.005)"
    by (simp add: ex_db_def)
  have rla: "\<bar>round_scale8 28.7000\<bar> < 100" and rlo: "\<bar>round_scale8 77.3000\<bar> < 1000"
    and i4: "int4 100"
    by (simp_all add: sql_eval)
  have rad: "int4 (case data_radius ex_far of None \<Rightarrow> 100 | Some r \<Rightarrow> if r = 0 then 100 else r)"
    by (simp add: r i4)
  from create_when_no_match [OF la lo no rla rlo rad, of 50]
  obtain zone where z: "createOrUpdateZone ex_db 50 ex_far =
        (Inr zone, ex_db\<lparr>unsafeZones := unsafeZones ex_db @ [zone]\<rparr>)"
    "name zone = data_name ex_far" "latitude zone = round_scale8 28.7000"
    "longitude zone = round_scale8 77.3000"
    "reportCount zone = Some 1" "riskLevel zone = Some ''low''" "radius zone = Some 100"
    using r by auto
  have "fst (createOrUpdateZone ex_db 50 ex_far) =
     Inr \<lparr>zid = 3, name = ''theft Zone'', latitude = 28.7000, longitude = 77.3000,
           radius = Some 100, reportCount = Some 1, riskLevel = Some ''low'',
           createdAt = 50, updatedAt = 50\<rparr>"
    by (simp add: createOrUpdateZone_def createUnsafeZone_def fresh_id_def or_default_def
          js_eval sql_eval ex_defs)
  with z(1) have "zone = \<lparr>zid = 3, name = ''theft Zone'', latitude = 28.7000, longitude = 77.3000,
           radius = Some 100, reportCount = Some 1, riskLevel = Some ''low'',
           createdAt = 50, updatedAt = 50\<rparr>"
    by simp
  with z(1) la lo r n1 n2 rla rlo i4 show ?thesis
    by (simp add: ex_db_def)
qed

section \<open>The recompute path\<close>

lemma in_zone_condition_iff:
  "in_zone_condition zone r = Some True \<longleftrightarrow>
     rep_status r = Some ''approved'' \<and>
     (\<exists>la lo. rep_latitude r = Some la \<and> rep_longitude r = Some lo \<and>
              \<bar>la - latitude zone\<bar> < 0.01 \<and> \<bar>lo - longitude zone\<bar> < 0.01)"
  by (cases "rep_status r"; cases "rep_latitude r"; cases "rep_longitude r")
     (auto simp: in_zone_condition_def sql_eq_def sql_less_def sql_abs_diff_def
           elim: sql_and.elims)

lemma reportsInZone_cong:
  "reports db = reports db0 \<Longrightarrow> reportsInZone db z = reportsInZone db0 z"
  by (simp add: reportsInZone_def)

lemma reportsInZone_bounds:
  "0 \<le> reportsInZone db z \<and> reportsInZone db z \<le> int (length (reports db))"
  by (simp add: reportsInZone_def)

lemma recompute_loop_step:
  assumes "distinct (map zid (pre @ zs))"
  shows "if \<forall>z \<in> set zs. int4 (reportsInZone db0 z)
         then recompute_loop (db0\<lparr>unsafeZones := map (recount db0 now) pre @ zs\<rparr>) now zs =
                (Inr (), db0\<lparr>unsafeZones := map (recount db0 now) (pre @ zs)\<rparr>)
         else fst (recompute_loop (db0\<lparr>unsafeZones := map (recount db0 now) pre @ zs\<rparr>) now zs) =
                Inl StoreFailure"
  using assms
proof (induction zs arbitrary: pre)
  case Nil
  then show ?case by simp
next
  case (Cons z rest)
  let ?db = "db0\<lparr>unsafeZones := map (recount db0 now) pre @ z # rest\<rparr>"
  have c: "reportsInZone ?db z = reportsInZone db0 z"
    by (rule reportsInZone_cong) simp
  show ?case
  proof (cases "int4 (reportsInZone db0 z)")
    case False
    then show ?thesis
      by (simp add: c updateZoneReportCount_fail)
  next
    case True
    have ids: "\<forall>p \<in> set pre. zid p \<noteq> zid z" "\<forall>p \<in> set rest. zid p \<noteq> zid z"
      using Cons.prems by (force simp: image_iff)+
    have r: "zid (recount db0 now p) = zid p" for p
      by (simp add: recount_def)
    have u: "updateZoneReportCount ?db now (zid z) (reportsInZone db0 z) =
            (Inr (), db0\<lparr>unsafeZones := map (recount db0 now) (pre @ [z]) @ rest\<rparr>)"
      using ids
      by (simp add: updateZoneReportCount_ok [OF True] r recount_def [of db0 now z] cong: map_cong)
    have d: "distinct (map zid ((pre @ [z]) @ rest))"
      using Cons.prems by simp
    have l: "recompute_loop ?db now (z # rest) =
             recompute_loop (db0\<lparr>unsafeZones := map (recount db0 now) (pre @ [z]) @ rest\<rparr>) now rest"
      by (simp add: c u)
    show ?thesis
    proof (cases "\<forall>z \<in> set rest. int4 (reportsInZone db0 z)")
      case t: True
      with Cons.IH [OF d]
      have "recompute_loop (db0\<lparr>unsafeZones := map (recount db0 now) (pre @ [z]) @ rest\<rparr>) now rest =
              (Inr (), db0\<lparr>unsafeZones := map (recount db0 now) ((pre @ [z]) @ rest)\<rparr>)"
        by simp
      with True t show ?thesis
        unfolding l by simp
    next
      case f: False
      with Cons.IH [OF d]
      have fl: "fst (recompute_loop (db0\<lparr>unsafeZones := map (recount db0 now) (pre @ [z]) @ rest\<rparr>) now rest) =
              Inl StoreFailure"
        by simp
      from f have nf: "(\<forall>x \<in> set (z # rest). int4 (reportsInZone db0 x)) = False"
        by auto
      show ?thesis
        unfolding l nf if_False by (rule fl)
    qed
  qed
qed

lemma getZonesWithReportCounts_ok:
  assumes "distinct (map zid (unsafeZones db))"
    and "\<forall>z \<in> set (unsafeZones db). int4 (reportsInZone db z)"
  shows "getZonesWithReportCounts db now =
           (Inr (getAllUnsafeZones (db\<lparr>unsafeZones := map (recount db now) (unsafeZones db)\<rparr>)),
            db\<lparr>unsafeZones := map (recount db now) (unsafeZones db)\<rparr>)"
  using recompute_loop_step [of "[]" "unsafeZones db" db now] assms
  by (simp add: getZonesWithReportCounts_def)

lemma getZonesWithReportCounts_Inr:
  assumes "distinct (map zid (unsafeZones db))"
    and "getZonesWithReportCounts db now = (Inr zones, db')"
  shows "\<forall>z \<in> set (unsafeZones db). int4 (reportsInZone db z)"
proof (rule ccontr)
  assume "\<not> (\<forall>z \<in> set (unsafeZones db). int4 (reportsInZone db z))"
  with recompute_loop_step [of "[]" "unsafeZones db" db now] assms(1)
  have "fst (recompute_loop db now (unsafeZones db)) = Inl StoreFailure"
    by simp
  then have "fst (getZonesWithReportCounts db now) = Inl StoreFailure"
    by (cases "recompute_loop db now (unsafeZones db)") (simp add: getZonesWithReportCounts_def)
  with assms(2) show False by simp
qed

text \<open>
  Claim C1. The identifiers of the zone table are its primary key.
  \<open>getZonesWithReportCounts\<close> completes when the number of reports fits the integer
  column. After it has completed, every stored zone's count is the number of reports
  with status approved whose latitude and longitude both differ from the zone's by less
  than 0.01, its tier is the classifier's value on that count, and the returned list
  holds exactly the stored zones. The zones are the same rows as before, the reports
  are untouched.
\<close>

theorem recompute_counts:
  assumes pk: "distinct (map zid (unsafeZones db))"
  shows "(int (length (reports db)) \<le> 2147483647 \<longrightarrow>
            (\<exists>zones db'. getZonesWithReportCounts db now = (Inr zones, db'))) \<and>
         (\<forall>zones db'. getZonesWithReportCounts db now = (Inr zones, db') \<longrightarrow>
            (\<forall>z \<in> set (unsafeZones db').
               reportCount z =
                 Some (int (length (filter
                   (\<lambda>r. rep_status r = Some ''approved'' \<and>
                        (\<exists>la lo. rep_latitude r = Some la \<and> rep_longitude r = Some lo \<and>
                                 \<bar>la - latitude z\<bar> < 0.01 \<and> \<bar>lo - longitude z\<bar> < 0.01))
                   (reports db')))) \<and>
               riskLevel z = Some (classify (the (reportCount z)))) \<and>
            mset zones = mset (unsafeZones db') \<and>
            map zid (unsafeZones db') = map zid (unsafeZones db) \<and>
            reports db' = reports db)"
proof (intro conjI allI impI)
  assume b: "int (length (reports db)) \<le> 2147483647"
  have "\<forall>z \<in> set (unsafeZones db). int4 (reportsInZone db z)"
  proof
    fix z
    show "int4 (reportsInZone db z)"
      using reportsInZone_bounds [of db z] b by (simp add: int4_def)
  qed
  then show "\<exists>zones db'. getZonesWithReportCounts db now = (Inr zones, db')"
    by (simp add: getZonesWithReportCounts_ok [OF pk])
next
  fix zones db'
  assume run: "getZonesWithReportCounts db now = (Inr zones, db')"
  have ok: "\<forall>z \<in> set (unsafeZones db). int4 (reportsInZone db z)"
    by (rule getZonesWithReportCounts_Inr [OF pk run])
  from run have db': "db' = db\<lparr>unsafeZones := map (recount db now) (unsafeZones db)\<rparr>"
    and zones: "zones = getAllUnsafeZones db'"
    by (auto simp: getZonesWithReportCounts_ok [OF pk ok])
  have "reportsInZone db z =
          int (length (filter
                (\<lambda>r. rep_status r = Some ''approved'' \<and>
                     (\<exists>la lo. rep_latitude r = Some la \<and> rep_longitude r = Some lo \<and>
                              \<bar>la - latitude z\<bar> < 0.01 \<and> \<bar>lo - longitude z\<bar> < 0.01))
                (reports db)))" for z
    by (simp add: reportsInZone_def in_zone_condition_iff)
  then show "\<forall>z \<in> set (unsafeZones db').
            reportCount z =
              Some (int (length (filter
                (\<lambda>r. rep_status r = Some ''approved'' \<and>
                     (\<exists>la lo. rep_latitude r = Some la \<and> rep_longitude r = Some lo \<and>
                              \<bar>la - latitude z\<bar> < 0.01 \<and> \<bar>lo - longitude z\<bar> < 0.01))
                (reports db')))) \<and>
            riskLevel z = Some (classify (the (reportCount z)))"
    by (auto simp: db' recount_def)
  show "mset zones = mset (unsafeZones db')"
    by (simp add: zones getAllUnsafeZones_def)
  show "map zid (unsafeZones db') = map zid (unsafeZones db)"
    by (simp add: db' recount_def)
  show "reports db' = reports db"
    by (simp add: db')
qed

theorem recompute_counts_witness:
  "distinct (map zid (unsafeZones ex_db)) \<and>
   int (length (reports ex_db)) \<le> 2147483647 \<and>
   map_sum id (map (\<lambda>z. (zid z, reportCount z, riskLevel z))) (fst (getZonesWithReportCounts ex_db 50)) =
     Inr [(2, Some 2, Some ''low''), (1, Some 2, Some ''low'')] \<and>
   map (\<lambda>z. (zid z, reportCount z, riskLevel z)) (unsafeZones (snd (getZonesWithReportCounts ex_db 50))) =
     [(1, Some 2, Some ''low''), (2, Some 2, Some ''low'')]"
proof -
  have pk: "distinct (map zid (unsafeZones ex_db))"
    and b: "int (length (reports ex_db)) \<le> 2147483647"
    by (simp_all add: ex_defs)
  from recompute_counts [OF pk, of 50] b
  obtain zones db' where run: "getZonesWithReportCounts ex_db 50 = (Inr zones, db')"
    by blast
  with recompute_counts [OF pk, of 50]
  have m: "mset zones = mset (unsafeZones db')"
    by blast
  have ev: "getZonesWithReportCounts ex_db 50 =
     (Inr [ex_zone2\<lparr>reportCount := Some 2, riskLevel := Some ''low'', updatedAt := 50\<rparr>,
           ex_zone\<lparr>reportCount := Some 2, riskLevel := Some ''low'', updatedAt := 50\<rparr>],
      ex_db\<lparr>unsafeZones :=
        [ex_zone\<lparr>reportCount := Some 2, riskLevel := Some ''low'', updatedAt := 50\<rparr>,
         ex_zone2\<lparr>reportCount := Some 2, riskLevel := Some ''low'', updatedAt := 50\<rparr>]\<rparr>)"
    by (simp add: getZonesWithReportCounts_def Let_def updateZoneReportCount_def int4_def
        reportsInZone_def in_zone_condition_def sql_eq_def sql_less_def sql_abs_diff_def
        getAllUnsafeZones_def classify_def ex_defs)
  from m run pk b show ?thesis
    unfolding ev by (auto simp: ex_zone_def ex_zone2_def)
qed

lemma recount_frame [simp]:
  "zid (recount db now z) = zid z" "latitude (recount db now z) = latitude z"
  "longitude (recount db now z) = longitude z" "createdAt (recount db now z) = createdAt z"
  by (simp_all add: recount_def)

lemma reportsInZone_coords:
  "reports db' = reports db \<Longrightarrow> latitude z' = latitude z \<Longrightarrow> longitude z' = longitude z \<Longrightarrow>
   reportsInZone db' z' = reportsInZone db z"
  by (simp add: reportsInZone_def in_zone_condition_def)

lemma insort_key_map_frame:
  assumes "\<And>y. f (g y) = f y"
  shows "insort_key f (g x) (map g xs) = map g (insort_key f x xs)"
  by (induction xs) (simp_all add: assms)

lemma sort_key_map_frame:
  assumes "\<And>y. f (g y) = f y"
  shows "sort_key f (map g xs) = map g (sort_key f xs)"
proof (induction xs)
  case Nil
  show ?case by simp
next
  case (Cons x xs)
  have "insort_key f (g x) (map g (sort_key f xs)) = map g (insort_key f x (sort_key f xs))"
    by (rule insort_key_map_frame) (rule assms)
  with Cons show ?case by simp
qed

text \<open>
  Claim C8. The identifiers of the zone table are its primary key. When a call of
  \<open>getZonesWithReportCounts\<close> has completed, a second call on the store it left completes
  too; the two returned lists agree zone for zone on \<open>reportCount\<close> and \<open>riskLevel\<close>, and
  the second call leaves these two fields of every stored zone as the first wrote them.
\<close>

theorem recompute_idempotent:
  assumes pk: "distinct (map zid (unsafeZones db))"
    and run1: "getZonesWithReportCounts db now1 = (Inr zones1, db1)"
  shows "\<exists>zones2 db2. getZonesWithReportCounts db1 now2 = (Inr zones2, db2) \<and>
           map (\<lambda>z. (zid z, reportCount z, riskLevel z)) zones2 =
             map (\<lambda>z. (zid z, reportCount z, riskLevel z)) zones1 \<and>
           map (\<lambda>z. (zid z, reportCount z, riskLevel z)) (unsafeZones db2) =
             map (\<lambda>z. (zid z, reportCount z, riskLevel z)) (unsafeZones db1) \<and>
           reports db2 = reports db1"
proof -
  let ?d = "\<lambda>z. (zid z, reportCount z, riskLevel z)"
  have ok: "\<forall>z \<in> set (unsafeZones db). int4 (reportsInZone db z)"
    by (rule getZonesWithReportCounts_Inr [OF pk run1])
  from run1 have db1: "db1 = db\<lparr>unsafeZones := map (recount db now1) (unsafeZones db)\<rparr>"
    and z1: "zones1 = getAllUnsafeZones db1"
    by (auto simp: getZonesWithReportCounts_ok [OF pk ok])
  have pk1: "distinct (map zid (unsafeZones db1))"
    using pk by (simp add: db1 comp_def)
  have cnt: "reportsInZone db1 z = reportsInZone db z0" if "z = recount db now1 z0" for z z0
    by (rule reportsInZone_coords) (simp_all add: db1 that)
  have ok1: "\<forall>z \<in> set (unsafeZones db1). int4 (reportsInZone db1 z)"
  proof
    fix z assume "z \<in> set (unsafeZones db1)"
    then obtain z0 where "z0 \<in> set (unsafeZones db)" "z = recount db now1 z0"
      by (auto simp: db1)
    with ok cnt show "int4 (reportsInZone db1 z)" by simp
  qed
  let ?db2 = "db1\<lparr>unsafeZones := map (recount db1 now2) (unsafeZones db1)\<rparr>"
  have run2: "getZonesWithReportCounts db1 now2 = (Inr (getAllUnsafeZones ?db2), ?db2)"
    by (rule getZonesWithReportCounts_ok [OF pk1 ok1])
  have same: "reportCount (recount db1 now2 z) = reportCount z \<and>
              riskLevel (recount db1 now2 z) = riskLevel z" if "z \<in> set (unsafeZones db1)" for z
  proof -
    from that obtain z0 where z: "z = recount db now1 z0"
      by (auto simp: db1)
    from cnt [OF z] show ?thesis
      by (simp add: z recount_def)
  qed
  have a: "map ?d (unsafeZones ?db2) = map ?d (unsafeZones db1)"
    using same by (simp add: comp_def)
  have "getAllUnsafeZones ?db2 = map (recount db1 now2) zones1"
    by (simp add: z1 getAllUnsafeZones_def sort_key_map_frame rev_map)
  moreover have "set zones1 = set (unsafeZones db1)"
    by (simp add: z1 getAllUnsafeZones_def)
  ultimately have b: "map ?d (getAllUnsafeZones ?db2) = map ?d zones1"
    using same by (simp add: comp_def)
  show ?thesis
    using run2 a b by simp
qed

theorem recompute_idempotent_witness:
  "distinct (map zid (unsafeZones ex_db)) \<and>
   map_sum id (map (\<lambda>z. (zid z, reportCount z, riskLevel z))) (fst (getZonesWithReportCounts ex_db 50)) =
     Inr [(2, Some 2, Some ''low''), (1, Some 2, Some ''low'')] \<and>
   map_sum id (map (\<lambda>z. (zid z, reportCount z, riskLevel z)))
       (fst (getZonesWithReportCounts (snd (getZonesWithReportCounts ex_db 50)) 60)) =
     Inr [(2, Some 2, Some ''low''), (1, Some 2, Some ''low'')]"
proof -
  have pk: "distinct (map zid (unsafeZones ex_db))"
    by (simp add: ex_defs)
  have ev: "getZonesWithReportCounts ex_db 50 =
     (Inr [ex_zone2\<lparr>reportCount := Some 2, riskLevel := Some ''low'', updatedAt := 50\<rparr>,
           ex_zone\<lparr>reportCount := Some 2, riskLevel := Some ''low'', updatedAt := 50\<rparr>],
      ex_db\<lparr>unsafeZones :=
        [ex_zone\<lparr>reportCount := Some 2, riskLevel := Some ''low'', updatedAt := 50\<rparr>,
         ex_zone2\<lparr>reportCount := Some 2, riskLevel := Some ''low'', updatedAt := 50\<rparr>]\<rparr>)"
    by (simp add: getZonesWithReportCounts_def Let_def updateZoneReportCount_def int4_def
        reportsInZone_def in_zone_condition_def sql_eq_def sql_less_def sql_abs_diff_def
        getAllUnsafeZones_def classify_def ex_defs)
  from recompute_idempotent [OF pk ev, of 60]
  obtain zones2 db2 where
    r2: "getZonesWithReportCounts
           (ex_db\<lparr>unsafeZones :=
             [ex_zone\<lparr>reportCount := Some 2, riskLevel := Some ''low'', updatedAt := 50\<rparr>,
              ex_zone2\<lparr>reportCount := Some 2, riskLevel := Some ''low'', updatedAt := 50\<rparr>]\<rparr>) 60 =
         (Inr zones2, db2)"
    and e: "map (\<lambda>z. (zid z, reportCount z, riskLevel z)) zones2 =
            map (\<lambda>z. (zid z, reportCount z, riskLevel z))
              [ex_zone2\<lparr>reportCount := Some 2, riskLevel := Some ''low'', updatedAt := 50\<rparr>,
               ex_zone\<lparr>reportCount := Some 2, riskLevel := Some ''low'', updatedAt := 50\<rparr>]"
    by blast
  from pk r2 e show ?thesis
    unfolding ev by (simp add: ex_zone_def ex_zone2_def)
qed

section \<open>Frame of the two aggregation paths\<close>

lemma same_frame_refl: "same_frame z z"
proof -
  have "z = z\<lparr>reportCount := reportCount z, riskLevel := riskLevel z, updatedAt := updatedAt z\<rparr>"
    by simp
  then show ?thesis unfolding same_frame_def by blast
qed

lemma same_frame_trans:
  assumes "same_frame a b" and "same_frame b c"
  shows "same_frame a c"
proof -
  from assms obtain c1 r1 u1 c2 r2 u2
    where b: "b = a\<lparr>reportCount := c1, riskLevel := r1, updatedAt := u1\<rparr>"
      and c: "c = b\<lparr>reportCount := c2, riskLevel := r2, updatedAt := u2\<rparr>"
    unfolding same_frame_def by blast
  have "c = a\<lparr>reportCount := c2, riskLevel := r2, updatedAt := u2\<rparr>"
    by (simp add: b c)
  then show ?thesis unfolding same_frame_def by blast
qed

lemma same_frame_update:
  "same_frame z (z\<lparr>reportCount := c, riskLevel := r, updatedAt := u\<rparr>)"
  unfolding same_frame_def by blast

lemma updateZoneReportCount_frame:
  "list_all2 same_frame (unsafeZones db) (unsafeZones (snd (updateZoneReportCount db now i c)))"
  by (simp add: updateZoneReportCount_def list_all2_map2 list.rel_refl_strong
        same_frame_refl same_frame_update)

lemma list_all2_same_frame_trans:
  "list_all2 same_frame xs ys \<Longrightarrow> list_all2 same_frame ys zs \<Longrightarrow> list_all2 same_frame xs zs"
  by (rule list_all2_trans [of same_frame same_frame same_frame]) (auto intro: same_frame_trans)

lemma recompute_loop_frame:
  "list_all2 same_frame (unsafeZones db) (unsafeZones (snd (recompute_loop db now zs)))"
proof (induction zs arbitrary: db)
  case Nil
  show ?case by (simp add: list.rel_refl same_frame_refl)
next
  case (Cons z rest)
  let ?u = "updateZoneReportCount db now (zid z) (reportsInZone db z)"
  have f: "list_all2 same_frame (unsafeZones db) (unsafeZones (snd ?u))"
    by (rule updateZoneReportCount_frame)
  show ?case
  proof (cases "fst ?u")
    case (Inl e)
    then have "recompute_loop db now (z # rest) = (Inl e, snd ?u)"
      by (cases ?u) simp
    with f show ?thesis by simp
  next
    case (Inr u)
    then have "recompute_loop db now (z # rest) = recompute_loop (snd ?u) now rest"
      by (cases ?u) simp
    with list_all2_same_frame_trans [OF f Cons.IH [of "snd ?u"]] show ?thesis by simp
  qed
qed

lemma createUnsafeZone_frame:
  "\<exists>new. unsafeZones (snd (createUnsafeZone db now i)) = unsafeZones db @ new"
  by (cases "ins_latitude i"; cases "ins_longitude i")
     (simp_all add: createUnsafeZone_def Let_def split: option.splits)

lemma createOrUpdateZone_frame:
  "list_all2 same_frame (unsafeZones db)
           (take (length (unsafeZones db)) (unsafeZones (snd (createOrUpdateZone db now d)))) \<and>
         length (unsafeZones db) \<le> length (unsafeZones (snd (createOrUpdateZone db now d)))"
proof (cases "find (merge_match d) (unsafeZones db)")
  case None
  let ?i = "\<lparr>ins_name = data_name d, ins_latitude = data_latitude d,
             ins_longitude = data_longitude d,
             ins_radius = Given (or_default (data_radius d) 100),
             ins_reportCount = Given 1, ins_riskLevel = Given ''low''\<rparr>"
  from createUnsafeZone_frame [of db now ?i] obtain new
    where "unsafeZones (snd (createUnsafeZone db now ?i)) = unsafeZones db @ new" by blast
  with None show ?thesis
    by (simp add: createOrUpdateZone_def loop_find list.rel_refl same_frame_refl)
next
  case (Some zone)
  let ?u = "updateZoneReportCount db now (zid zone) (or_default (reportCount zone) 0 + 1)"
  have f: "list_all2 same_frame (unsafeZones db) (unsafeZones (snd ?u))"
    by (rule updateZoneReportCount_frame)
  then have l: "length (unsafeZones (snd ?u)) = length (unsafeZones db)"
    by (simp add: list_all2_lengthD)
  have "snd (createOrUpdateZone db now d) = snd ?u"
    using Some by (cases ?u; cases "fst ?u") (simp_all add: createOrUpdateZone_def loop_find)
  with f l show ?thesis by simp
qed

text \<open>
  Claim C10. Neither \<open>createOrUpdateZone\<close> nor \<open>getZonesWithReportCounts\<close> deletes a
  zone or writes a field of an existing zone other than \<open>reportCount\<close>, \<open>riskLevel\<close>
  and \<open>updatedAt\<close>: every row of the table is afterwards at the same place, equal to what
  it was up to these three fields, so identifier, name, latitude, longitude, radius and
  \<open>createdAt\<close> are kept. This holds whether the call succeeds or fails.
\<close>

theorem merge_and_recompute_frame:
  "(\<forall>i < length (unsafeZones db).
      \<exists>c r u. unsafeZones (snd (createOrUpdateZone db now d)) ! i =
                (unsafeZones db ! i)\<lparr>reportCount := c, riskLevel := r, updatedAt := u\<rparr>) \<and>
   length (unsafeZones db) \<le> length (unsafeZones (snd (createOrUpdateZone db now d))) \<and>
   (\<forall>i < length (unsafeZones db).
      \<exists>c r u. unsafeZones (snd (getZonesWithReportCounts db now)) ! i =
                (unsafeZones db ! i)\<lparr>reportCount := c, riskLevel := r, updatedAt := u\<rparr>) \<and>
   length (unsafeZones (snd (getZonesWithReportCounts db now))) = length (unsafeZones db)"
proof -
  let ?m = "unsafeZones (snd (createOrUpdateZone db now d))"
  let ?g = "unsafeZones (snd (getZonesWithReportCounts db now))"
  from createOrUpdateZone_frame [of db now d]
  have m: "list_all2 same_frame (unsafeZones db) (take (length (unsafeZones db)) ?m)"
    and ml: "length (unsafeZones db) \<le> length ?m"
    by simp_all
  have "snd (getZonesWithReportCounts db now) = snd (recompute_loop db now (unsafeZones db))"
    by (cases "recompute_loop db now (unsafeZones db)";
        cases "fst (recompute_loop db now (unsafeZones db))")
       (simp_all add: getZonesWithReportCounts_def)
  then have g: "list_all2 same_frame (unsafeZones db) ?g"
    using recompute_loop_frame [of db now "unsafeZones db"] by simp
  have 1: "\<forall>i < length (unsafeZones db). same_frame (unsafeZones db ! i) (?m ! i)"
    using list_all2_nthD [OF m] by simp
  have 2: "\<forall>i < length (unsafeZones db). same_frame (unsafeZones db ! i) (?g ! i)"
    using list_all2_nthD [OF g] by simp
  have 3: "length ?g = length (unsafeZones db)"
    using g by (simp add: list_all2_lengthD)
  from 1 2 3 ml show ?thesis
    unfolding same_frame_def by simp
qed

theorem merge_and_recompute_frame_witness:
  "(0::nat) < length (unsafeZones ex_db) \<and>
   (\<lambda>z. (zid z, name z, latitude z, longitude z, radius z, createdAt z))
      (unsafeZones (snd (createOrUpdateZone ex_db 50 ex_near)) ! 0) =
   (\<lambda>z. (zid z, name z, latitude z, longitude z, radius z, createdAt z)) (unsafeZones ex_db ! 0) \<and>
   (\<lambda>z. (zid z, name z, latitude z, longitude z, radius z, createdAt z))
      (unsafeZones (snd (getZonesWithReportCounts ex_db 50)) ! 0) =
   (\<lambda>z. (zid z, name z, latitude z, longitude z, radius z, createdAt z)) (unsafeZones ex_db ! 0)"
proof -
  have l: "(0::nat) < length (unsafeZones ex_db)"
    by (simp add: ex_db_def)
  note t = merge_and_recompute_frame [of ex_db 50 ex_near]
  from t l obtain c r u where
    "unsafeZones (snd (createOrUpdateZone ex_db 50 ex_near)) ! 0 =
       (unsafeZones ex_db ! 0)\<lparr>reportCount := c, riskLevel := r, updatedAt := u\<rparr>"
    by blast
  moreover from t l obtain c' r' u' where
    "unsafeZones (snd (getZonesWithReportCounts ex_db 50)) ! 0 =
       (unsafeZones ex_db ! 0)\<lparr>reportCount := c', riskLevel := r', updatedAt := u'\<rparr>"
    by blast
  ultimately show ?thesis
    using l by simp
qed

section \<open>Approving a report\<close>

lemma find_map_status:
  "find (\<lambda>r. rep_id r = i) (map (\<lambda>r. if rep_id r = i then r\<lparr>rep_status := s\<rparr> else r) rs) =
   map_option (\<lambda>r. r\<lparr>rep_status := s\<rparr>) (find (\<lambda>r. rep_id r = i) rs)"
  by (induction rs) simp_all

lemma updateZoneReportCount_reports: "reports (snd (updateZoneReportCount db now i c)) = reports db"
  by (simp add: updateZoneReportCount_def)

lemma createUnsafeZone_reports: "reports (snd (createUnsafeZone db now i)) = reports db"
  by (cases "ins_latitude i"; cases "ins_longitude i")
     (simp_all add: createUnsafeZone_def Let_def split: option.splits)

lemma createOrUpdateZone_reports: "reports (snd (createOrUpdateZone db now d)) = reports db"
proof (cases "find (merge_match d) (unsafeZones db)")
  case None
  then show ?thesis
    by (simp add: createOrUpdateZone_def loop_find createUnsafeZone_reports)
next
  case (Some zone)
  let ?u = "updateZoneReportCount db now (zid zone) (or_default (reportCount zone) 0 + 1)"
  have "snd (createOrUpdateZone db now d) = snd ?u"
    using Some by (cases ?u; cases "fst ?u") (simp_all add: createOrUpdateZone_def loop_find)
  then show ?thesis
    by (simp add: updateZoneReportCount_reports)
qed

text \<open>
  Claim C6. \<open>approve\<close> answers \<open>NotFound\<close> and leaves the store as it is when no report
  has the identifier. Otherwise it sets the status of the report to approved in the
  table. When the report has both a latitude and a longitude it then runs
  \<open>createOrUpdateZone\<close> with the name made of the incident type and \<open>Zone\<close>, the report's
  coordinates and radius 100, and succeeds with the approved report exactly when that
  call succeeds. When the report lacks either, it succeeds with the approved report and
  the zone table is left unchanged.
\<close>

theorem approve_report:
  "(getReport db i = None \<longrightarrow> approve db now i = (Inl NotFound, db)) \<and>
   (\<forall>report. getReport db i = Some report \<longrightarrow>
      reports (snd (approve db now i)) =
        map (\<lambda>r. if rep_id r = i then r\<lparr>rep_status := Some ''approved''\<rparr> else r) (reports db) \<and>
      (\<forall>la lo. rep_latitude report = Some la \<and> rep_longitude report = Some lo \<longrightarrow>
         snd (approve db now i) =
           snd (createOrUpdateZone
             (db\<lparr>reports := map (\<lambda>r. if rep_id r = i then r\<lparr>rep_status := Some ''approved''\<rparr> else r)
                                  (reports db)\<rparr>) now
             \<lparr>data_name = rep_incidentType report @ '' Zone'', data_latitude = Given la,
              data_longitude = Given lo, data_radius = Some 100\<rparr>) \<and>
         fst (approve db now i) =
           (case fst (createOrUpdateZone
             (db\<lparr>reports := map (\<lambda>r. if rep_id r = i then r\<lparr>rep_status := Some ''approved''\<rparr> else r)
                                  (reports db)\<rparr>) now
             \<lparr>data_name = rep_incidentType report @ '' Zone'', data_latitude = Given la,
              data_longitude = Given lo, data_radius = Some 100\<rparr>) of
              Inl e \<Rightarrow> Inl e
            | Inr z \<Rightarrow> Inr (Some (report\<lparr>rep_status := Some ''approved''\<rparr>)))) \<and>
      (rep_latitude report = None \<or> rep_longitude report = None \<longrightarrow>
         fst (approve db now i) = Inr (Some (report\<lparr>rep_status := Some ''approved''\<rparr>)) \<and>
         unsafeZones (snd (approve db now i)) = unsafeZones db))"
proof (intro conjI allI impI)
  assume "getReport db i = None"
  then show "approve db now i = (Inl NotFound, db)"
    by (simp add: approve_def)
next
  fix report assume g: "getReport db i = Some report"
  let ?db1 = "db\<lparr>reports := map (\<lambda>r. if rep_id r = i then r\<lparr>rep_status := Some ''approved''\<rparr> else r)
                                   (reports db)\<rparr>"
  have u: "updateReportStatus db i ''approved'' =
             (Some (report\<lparr>rep_status := Some ''approved''\<rparr>), ?db1)"
    using g by (simp add: updateReportStatus_def getReport_def Let_def find_map_status)
  show "reports (snd (approve db now i)) =
        map (\<lambda>r. if rep_id r = i then r\<lparr>rep_status := Some ''approved''\<rparr> else r) (reports db)"
  proof (cases "rep_latitude report")
    case None
    then show ?thesis by (simp add: approve_def g u)
  next
    case (Some la)
    show ?thesis
    proof (cases "rep_longitude report")
      case None
      then show ?thesis by (simp add: approve_def g u Some)
    next
      case lo: (Some lo)
      let ?d = "\<lparr>data_name = rep_incidentType report @ '' Zone'', data_latitude = Given la,
              data_longitude = Given lo, data_radius = Some 100\<rparr>"
      have "reports (snd (createOrUpdateZone ?db1 now ?d)) = reports ?db1"
        by (rule createOrUpdateZone_reports)
      then show ?thesis
        by (cases "createOrUpdateZone ?db1 now ?d"; cases "fst (createOrUpdateZone ?db1 now ?d)")
           (simp_all add: approve_def g u Some lo)
    qed
  qed
  show "fst (approve db now i) = Inr (Some (report\<lparr>rep_status := Some ''approved''\<rparr>))"
    if "rep_latitude report = None \<or> rep_longitude report = None"
    using that by (cases "rep_latitude report"; cases "rep_longitude report")
      (simp_all add: approve_def g u)
  show "unsafeZones (snd (approve db now i)) = unsafeZones db"
    if "rep_latitude report = None \<or> rep_longitude report = None"
    using that by (cases "rep_latitude report"; cases "rep_longitude report")
      (simp_all add: approve_def g u)
next
  fix report la lo
  assume g: "getReport db i = Some report"
    and c: "rep_latitude report = Some la \<and> rep_longitude report = Some lo"
  let ?db1 = "db\<lparr>reports := map (\<lambda>r. if rep_id r = i then r\<lparr>rep_status := Some ''approved''\<rparr> else r)
                                   (reports db)\<rparr>"
  let ?d = "\<lparr>data_name = rep_incidentType report @ '' Zone'', data_latitude = Given la,
              data_longitude = Given lo, data_radius = Some 100\<rparr>"
  have u: "updateReportStatus db i ''approved'' =
             (Some (report\<lparr>rep_status := Some ''approved''\<rparr>), ?db1)"
    using g by (simp add: updateReportStatus_def getReport_def Let_def find_map_status)
  show "snd (approve db now i) = snd (createOrUpdateZone ?db1 now ?d)"
    using c by (cases "createOrUpdateZone ?db1 now ?d"; cases "fst (createOrUpdateZone ?db1 now ?d)")
      (simp_all add: approve_def g u)
  show "fst (approve db now i) =
          (case fst (createOrUpdateZone ?db1 now ?d) of
             Inl e \<Rightarrow> Inl e
           | Inr z \<Rightarrow> Inr (Some (report\<lparr>rep_status := Some ''approved''\<rparr>)))"
    using c by (cases "createOrUpdateZone ?db1 now ?d"; cases "fst (createOrUpdateZone ?db1 now ?d)")
      (simp_all add: approve_def g u)
qed

theorem approve_report_witness:
  "getReport ex_db 99 = None \<and> approve ex_db 50 99 = (Inl NotFound, ex_db) \<and>
   getReport ex_db 5 = Some (ex_report 5 None None ''pending'') \<and>
   rep_latitude (ex_report 5 None None ''pending'') = None \<and>
   fst (approve ex_db 50 5) = Inr (Some (ex_report 5 None None ''approved'')) \<and>
   unsafeZones (snd (approve ex_db 50 5)) = unsafeZones ex_db \<and>
   getReport ex_db 4 = Some (ex_report 4 (Some 28.6139) (Some 77.2090) ''pending'') \<and>
   fst (approve ex_db 50 4) = Inr (Some (ex_report 4 (Some 28.6139) (Some 77.2090) ''approved'')) \<and>
   unsafeZones (snd (approve ex_db 50 4)) =
     [ex_zone\<lparr>reportCount := Some 6, riskLevel := Some ''medium'', updatedAt := 50\<rparr>, ex_zone2]"
proof -
  let ?d = "\<lparr>data_name = rep_incidentType (ex_report 4 (Some 28.6139) (Some 77.2090) ''pending'') @ '' Zone'',
              data_latitude = Given 28.6139,
              data_longitude = Given 77.2090, data_radius = Some 100\<rparr>"
  let ?db1 = "ex_db\<lparr>reports := map (\<lambda>r. if rep_id r = 4 then r\<lparr>rep_status := Some ''approved''\<rparr> else r)
                                  (reports ex_db)\<rparr>"
  have g1: "getReport ex_db 99 = None"
    and g2: "getReport ex_db 5 = Some (ex_report 5 None None ''pending'')"
    and g3: "getReport ex_db 4 = Some (ex_report 4 (Some 28.6139) (Some 77.2090) ''pending'')"
    by (simp_all add: getReport_def ex_db_def ex_report_def)
  have n: "rep_latitude (ex_report 5 None None ''pending'') = None"
    by (simp add: ex_report_def)
  have s: "(ex_report 5 None None ''pending'')\<lparr>rep_status := Some ''approved''\<rparr> =
           ex_report 5 None None ''approved''"
    "(ex_report 4 (Some 28.6139) (Some 77.2090) ''pending'')\<lparr>rep_status := Some ''approved''\<rparr> =
           ex_report 4 (Some 28.6139) (Some 77.2090) ''approved''"
    by (simp_all add: ex_report_def)
  have c: "rep_latitude (ex_report 4 (Some 28.6139) (Some 77.2090) ''pending'') = Some 28.6139 \<and>
           rep_longitude (ex_report 4 (Some 28.6139) (Some 77.2090) ''pending'') = Some 77.2090"
    by (simp add: ex_report_def)
  have a1: "approve ex_db 50 99 = (Inl NotFound, ex_db)"
    using approve_report [of ex_db 99 50] g1 by blast
  have a2: "fst (approve ex_db 50 5) = Inr (Some (ex_report 5 None None ''approved''))"
    "unsafeZones (snd (approve ex_db 50 5)) = unsafeZones ex_db"
    using approve_report [of ex_db 5 50] g2 n s by auto
  have m: "createOrUpdateZone ?db1 50 ?d =
      (Inr ex_zone,
       ?db1\<lparr>unsafeZones :=
         [ex_zone\<lparr>reportCount := Some 6, riskLevel := Some ''medium'', updatedAt := 50\<rparr>, ex_zone2]\<rparr>)"
    by (simp add: createOrUpdateZone_def or_default_def updateZoneReportCount_def int4_def
        classify_def js_eval ex_defs)
  have "snd (approve ex_db 50 4) = snd (createOrUpdateZone ?db1 50 ?d) \<and>
        fst (approve ex_db 50 4) =
          (case fst (createOrUpdateZone ?db1 50 ?d) of
             Inl e \<Rightarrow> Inl e
           | Inr z \<Rightarrow> Inr (Some ((ex_report 4 (Some 28.6139) (Some 77.2090) ''pending'')
                                   \<lparr>rep_status := Some ''approved''\<rparr>)))"
    using approve_report [of ex_db 4 50] g3 c by blast
  then have a3: "unsafeZones (snd (approve ex_db 50 4)) =
     [ex_zone\<lparr>reportCount := Some 6, riskLevel := Some ''medium'', updatedAt := 50\<rparr>, ex_zone2]"
    "fst (approve ex_db 50 4) = Inr (Some (ex_report 4 (Some 28.6139) (Some 77.2090) ''approved''))"
    unfolding m by (simp_all add: ex_report_def)
  from g1 g2 g3 n a1 a2 a3 show ?thesis by simp
qed

section \<open>The record returned by a merge\<close>

text \<open>
  Claim C4. The claim asks that the record returned by a merge carry the count and tier
  after the increment. In the example store the candidate is merged into the first zone,
  whose stored count goes from 5 to 6 and whose tier goes from low to medium; the
  returned record is the row as read before the update, with count 5 and tier low.
\<close>

theorem merge_returns_stale_record:
  "fst (createOrUpdateZone ex_db 50 ex_near) = Inr ex_zone \<and>
   reportCount ex_zone = Some 5 \<and> riskLevel ex_zone = Some ''low'' \<and>
   find (\<lambda>z. zid z = zid ex_zone) (unsafeZones (snd (createOrUpdateZone ex_db 50 ex_near))) =
     Some (ex_zone\<lparr>reportCount := Some 6, riskLevel := Some ''medium'', updatedAt := 50\<rparr>)"
  by (simp add: createOrUpdateZone_def or_default_def updateZoneReportCount_def int4_def
        classify_def js_eval ex_defs)

section \<open>Candidates without coordinates\<close>

lemma createUnsafeZone_not_Given:
  assumes "ins_latitude i \<in> {Undefined, Null} \<or> ins_longitude i \<in> {Undefined, Null}"
  shows "createUnsafeZone db now i = (Inl StoreFailure, db)"
  using assms
  by (cases "ins_latitude i"; cases "ins_longitude i") (simp_all add: createUnsafeZone_def)

lemma merge_match_Undefined:
  "data_latitude d = Undefined \<or> data_longitude d = Undefined \<Longrightarrow> \<not> merge_match d z"
  by (auto simp: merge_match_def abs_diff_def js_minus_def js_less_def split: option.splits)

text \<open>
  Claim C5, as stated, fails: \<open>createOrUpdateZone\<close> has no check of its own. With
  both coordinates \<open>null\<close> and a zone next to (0, 0) in the store it succeeds and
  increments that zone; in the example store it fails, with the store's failure and not
  with \<open>InvalidInput\<close>.
\<close>

theorem missing_coordinates_counterexample:
  "data_latitude ex_null = Null \<and> data_longitude ex_null = Null \<and>
   fst (createOrUpdateZone ex_origin_db 50 ex_null) \<noteq> Inl InvalidInput \<and>
   snd (createOrUpdateZone ex_origin_db 50 ex_null) \<noteq> ex_origin_db \<and>
   map reportCount (unsafeZones ex_origin_db) = [Some 2] \<and>
   map reportCount (unsafeZones (snd (createOrUpdateZone ex_origin_db 50 ex_null))) = [Some 3] \<and>
   createOrUpdateZone ex_db 50 ex_null = (Inl StoreFailure, ex_db)"
  by (simp add: createOrUpdateZone_def or_default_def updateZoneReportCount_def int4_def
        classify_def createUnsafeZone_def js_eval ex_defs)

text \<open>
  Claim C5, amended. For a candidate lacking latitude or longitude,
  \<open>createOrUpdateZone\<close> never answers \<open>InvalidInput\<close> and never creates a zone, at (0, 0)
  or anywhere: afterwards the table has the same rows with the same identifier, name,
  coordinates, radius and \<open>createdAt\<close>. When a coordinate is \<open>undefined\<close>, and whenever
  the call fails, the failure is the store's and the store is unchanged.
\<close>

theorem missing_coordinates_no_zone_created:
  assumes "data_latitude d \<in> {Undefined, Null} \<or> data_longitude d \<in> {Undefined, Null}"
  shows "fst (createOrUpdateZone db now d) \<noteq> Inl InvalidInput \<and>
         map (\<lambda>z. (zid z, name z, latitude z, longitude z, radius z, createdAt z))
             (unsafeZones (snd (createOrUpdateZone db now d))) =
         map (\<lambda>z. (zid z, name z, latitude z, longitude z, radius z, createdAt z)) (unsafeZones db) \<and>
         (data_latitude d = Undefined \<or> data_longitude d = Undefined \<longrightarrow>
            createOrUpdateZone db now d = (Inl StoreFailure, db)) \<and>
         (\<forall>e. fst (createOrUpdateZone db now d) = Inl e \<longrightarrow>
            createOrUpdateZone db now d = (Inl StoreFailure, db))"
proof (cases "find (merge_match d) (unsafeZones db)")
  case None
  let ?i = "\<lparr>ins_name = data_name d, ins_latitude = data_latitude d,
             ins_longitude = data_longitude d,
             ins_radius = Given (or_default (data_radius d) 100),
             ins_reportCount = Given 1, ins_riskLevel = Given ''low''\<rparr>"
  have "createUnsafeZone db now ?i = (Inl StoreFailure, db)"
    using assms by (intro createUnsafeZone_not_Given) simp
  with None have "createOrUpdateZone db now d = (Inl StoreFailure, db)"
    by (simp add: createOrUpdateZone_def loop_find)
  then show ?thesis by simp
next
  case (Some zone)
  let ?c = "or_default (reportCount zone) 0 + 1"
  from Some have "merge_match d zone"
    by (auto simp: find_Some_iff)
  then have nu: "\<not> (data_latitude d = Undefined \<or> data_longitude d = Undefined)"
    using merge_match_Undefined by blast
  show ?thesis
  proof (cases "int4 ?c")
    case True
    have r: "createOrUpdateZone db now d =
        (Inr zone,
         db\<lparr>unsafeZones :=
              map (\<lambda>z. if zid z = zid zone
                        then z\<lparr>reportCount := Some ?c, riskLevel := Some (classify ?c),
                               updatedAt := now\<rparr>
                        else z)
                  (unsafeZones db)\<rparr>)"
      using Some by (simp add: createOrUpdateZone_def loop_find updateZoneReportCount_ok [OF True])
    have "map (\<lambda>z. (zid z, name z, latitude z, longitude z, radius z, createdAt z))
             (unsafeZones (snd (createOrUpdateZone db now d))) =
         map (\<lambda>z. (zid z, name z, latitude z, longitude z, radius z, createdAt z)) (unsafeZones db)"
      unfolding r by (simp add: comp_def)
    with nu show ?thesis
      by (simp add: r)
  next
    case False
    have "createOrUpdateZone db now d = (Inl StoreFailure, db)"
      using Some by (simp add: createOrUpdateZone_def loop_find updateZoneReportCount_fail [OF False])
    then show ?thesis by simp
  qed
qed

theorem missing_coordinates_no_zone_created_witness:
  "data_latitude ex_null = Null \<and>
   fst (createOrUpdateZone ex_db 50 ex_null) = Inl StoreFailure \<and>
   snd (createOrUpdateZone ex_db 50 ex_null) = ex_db \<and>
   map (\<lambda>z. (zid z, name z, latitude z, longitude z, radius z, createdAt z))
       (unsafeZones (snd (createOrUpdateZone ex_origin_db 50 ex_null))) =
     [(7, ''Gulf'', 0.001, 0.002, Some 100, 3)]"
proof -
  have n: "data_latitude ex_null = Null"
    by (simp add: ex_null_def)
  then have h: "data_latitude ex_null \<in> {Undefined, Null} \<or> data_longitude ex_null \<in> {Undefined, Null}"
    by simp
  have f: "fst (createOrUpdateZone ex_db 50 ex_null) = Inl StoreFailure"
    by (simp add: createOrUpdateZone_def or_default_def createUnsafeZone_def js_eval ex_defs)
  with missing_coordinates_no_zone_created [OF h, of ex_db 50]
  have 1: "createOrUpdateZone ex_db 50 ex_null = (Inl StoreFailure, ex_db)"
    by blast
  from missing_coordinates_no_zone_created [OF h, of ex_origin_db 50]
  have 2: "map (\<lambda>z. (zid z, name z, latitude z, longitude z, radius z, createdAt z))
             (unsafeZones (snd (createOrUpdateZone ex_origin_db 50 ex_null))) =
           map (\<lambda>z. (zid z, name z, latitude z, longitude z, radius z, createdAt z))
             (unsafeZones ex_origin_db)"
    by blast
  from n 1 2 show ?thesis
    by (simp add: ex_origin_db_def)
qed

section \<open>Zone creation by an administrator\<close>

text \<open>
  Claim C9, as stated, fails: a request to \<open>POST /api/zones\<close> that names count 99 and
  tier low creates a zone with exactly these values, although the tier of 99 is high.
\<close>

theorem postZone_counterexample:
  "postZone ex_db 50 ex_body = (Inr ex_posted, ex_db\<lparr>unsafeZones := unsafeZones ex_db @ [ex_posted]\<rparr>) \<and>
   reportCount ex_posted = Some 99 \<and> riskLevel ex_posted = Some ''low'' \<and>
   classify 99 = ''high''"
  by (simp add: postZone_def insertUnsafeZoneSchema_parse_def createUnsafeZone_def Let_def
        fresh_id_def classify_def sql_eval ex_defs)

text \<open>
  Claim C9, amended. A request to \<open>POST /api/zones\<close> whose coordinates fit the zone
  columns (rounded to 8 places, the latitude is below 100 and the longitude below 1000
  in absolute value) and whose \<open>radius\<close> and \<open>reportCount\<close>, when given, fit the integer
  columns appends one zone whose \<open>reportCount\<close> and \<open>riskLevel\<close> are the values of the
  request body, the column defaults 0 and low when the body leaves them out. A body with
  count 0 or none and no tier, as the admin dashboard sends, gives the seed: count 0 with
  the tier of 0. A request with coordinates that misses one of these conditions fails
  and creates no zone.
\<close>

theorem postZone_stores_body:
  assumes "ins_latitude body = Given la" and "ins_longitude body = Given lo"
  shows "if \<bar>round_scale8 la\<bar> < 100 \<and> \<bar>round_scale8 lo\<bar> < 1000 \<and>
            int4_column (ins_radius body) \<and> int4_column (ins_reportCount body)
         then \<exists>zone. postZone db now body = (Inr zone, db\<lparr>unsafeZones := unsafeZones db @ [zone]\<rparr>) \<and>
           (ins_reportCount body = Undefined \<longrightarrow> reportCount zone = Some 0) \<and>
           (ins_reportCount body = Null \<longrightarrow> reportCount zone = None) \<and>
           (\<forall>c. ins_reportCount body = Given c \<longrightarrow> reportCount zone = Some c) \<and>
           (ins_riskLevel body = Undefined \<longrightarrow> riskLevel zone = Some ''low'') \<and>
           (ins_riskLevel body = Null \<longrightarrow> riskLevel zone = None) \<and>
           (\<forall>t. ins_riskLevel body = Given t \<longrightarrow> riskLevel zone = Some t) \<and>
           (ins_reportCount body \<in> {Undefined, Given 0} \<and> ins_riskLevel body = Undefined \<longrightarrow>
              reportCount zone = Some 0 \<and> riskLevel zone = Some (classify 0))
         else \<exists>e. postZone db now body = (Inl e, db)"
proof (cases "\<bar>round_scale8 la\<bar> < 100 \<and> \<bar>round_scale8 lo\<bar> < 1000 \<and>
            int4_column (ins_radius body) \<and> int4_column (ins_reportCount body)")
  case True
  then have "postZone db now body = createUnsafeZone db now body"
    using assms by (simp add: postZone_def insertUnsafeZoneSchema_parse_def)
  with True assms show ?thesis
    by (auto simp: createUnsafeZone_Given [where la = la and lo = lo] classify_def)
next
  case False
  then have e: "\<exists>e. postZone db now body = (Inl e, db)"
    using assms
    by (auto simp: postZone_def insertUnsafeZoneSchema_parse_def createUnsafeZone_def decimal8_def)
  show ?thesis
    using e by (simp only: False if_False)
qed

theorem postZone_stores_body_witness:
  "ins_latitude ex_click = Given 28.5 \<and> ins_longitude ex_click = Given 77.1 \<and>
   \<bar>round_scale8 28.5\<bar> < 100 \<and> \<bar>round_scale8 77.1\<bar> < 1000 \<and>
   int4_column (ins_radius ex_click) \<and> int4_column (ins_reportCount ex_click) \<and>
   ins_reportCount ex_click = Given 0 \<and> ins_riskLevel ex_click = Undefined \<and>
   fst (postZone ex_db 50 ex_click) =
     Inr \<lparr>zid = 3, name = ''Underpass'', latitude = 28.5, longitude = 77.1,
          radius = Some 100, reportCount = Some 0, riskLevel = Some (classify 0),
          createdAt = 50, updatedAt = 50\<rparr>"
proof -
  have la: "ins_latitude ex_click = Given 28.5" and lo: "ins_longitude ex_click = Given 77.1"
    and c: "ins_reportCount ex_click = Given 0" and t: "ins_riskLevel ex_click = Undefined"
    by (simp_all add: ex_click_def)
  have r: "\<bar>round_scale8 28.5\<bar> < 100 \<and> \<bar>round_scale8 77.1\<bar> < 1000 \<and>
           int4_column (ins_radius ex_click) \<and> int4_column (ins_reportCount ex_click)"
    by (simp add: sql_eval ex_click_def)
  from postZone_stores_body [OF la lo, of ex_db 50] r c t
  obtain zone where z: "postZone ex_db 50 ex_click =
      (Inr zone, ex_db\<lparr>unsafeZones := unsafeZones ex_db @ [zone]\<rparr>)"
    "reportCount zone = Some 0" "riskLevel zone = Some (classify 0)"
    by auto
  have "fst (postZone ex_db 50 ex_click) =
     Inr \<lparr>zid = 3, name = ''Underpass'', latitude = 28.5, longitude = 77.1,
          radius = Some 100, reportCount = Some 0, riskLevel = Some ''low'',
          createdAt = 50, updatedAt = 50\<rparr>"
    by (simp add: postZone_def insertUnsafeZoneSchema_parse_def createUnsafeZone_def Let_def
        fresh_id_def sql_eval ex_defs)
  with z la lo c t r show ?thesis
    by (simp add: classify_def)
qed

end
